theory Spec2Isabelle
  imports Complex_Main "HOL-Library.Sublist" "HOL-Library.AList"
begin

section \<open>Strings\<close>

text \<open>
  A Python \<^verbatim>\<open>str\<close> is modelled as a \<^typ>\<open>string\<close>: a list of characters, a character
  outside ASCII being the bytes of its UTF-8 encoding. The character classes and the case
  mappings below are those of Python on ASCII; bytes above 127 belong to no class and are
  left alone by \<open>lower\<close> and \<open>upper\<close>. Python's \<^verbatim>\<open>p in s\<close> on strings is
  \<^term>\<open>sublist p s\<close>.
\<close>

definition code :: "char \<Rightarrow> nat" where
  "code c = of_char c"

definition is_upper :: "char \<Rightarrow> bool" where
  "is_upper c = (65 \<le> code c \<and> code c \<le> 90)"

definition is_lower :: "char \<Rightarrow> bool" where
  "is_lower c = (97 \<le> code c \<and> code c \<le> 122)"

definition is_digit :: "char \<Rightarrow> bool" where
  "is_digit c = (48 \<le> code c \<and> code c \<le> 57)"

definition is_alnum :: "char \<Rightarrow> bool" where
  "is_alnum c = (is_upper c \<or> is_lower c \<or> is_digit c)"

text \<open>\<^verbatim>\<open>\w\<close>: a letter, a digit or the underscore.\<close>

definition is_word :: "char \<Rightarrow> bool" where
  "is_word c = (is_alnum c \<or> c = CHR ''_'')"

text \<open>
  \<^verbatim>\<open>str.isspace\<close>, which \<^verbatim>\<open>str.strip()\<close> and \<^verbatim>\<open>\s\<close> use: tab, line feed,
  vertical tab, form feed, carriage return, the separators 28 to 31, and the space.
\<close>

definition is_space :: "char \<Rightarrow> bool" where
  "is_space c = ((9 \<le> code c \<and> code c \<le> 13) \<or> (28 \<le> code c \<and> code c \<le> 32))"

definition lower_char :: "char \<Rightarrow> char" where
  "lower_char c = (if is_upper c then char_of (code c + 32) else c)"

definition upper_char :: "char \<Rightarrow> char" where
  "upper_char c = (if is_lower c then char_of (code c - 32) else c)"

definition lower :: "string \<Rightarrow> string" where
  "lower s = map lower_char s"

definition upper :: "string \<Rightarrow> string" where
  "upper s = map upper_char s"

definition lstrip :: "string \<Rightarrow> string" where
  "lstrip s = dropWhile is_space s"

definition rstrip :: "string \<Rightarrow> string" where
  "rstrip s = rev (dropWhile is_space (rev s))"

definition strip :: "string \<Rightarrow> string" where
  "strip s = rstrip (lstrip s)"

text \<open>\<^verbatim>\<open>s.rstrip(chars)\<close>: trailing characters of the given set are removed.\<close>

definition rstrip_chars :: "string \<Rightarrow> string \<Rightarrow> string" where
  "rstrip_chars chars s = rev (dropWhile (\<lambda>c. c \<in> set chars) (rev s))"

text \<open>\<^verbatim>\<open>s.startswith(p)\<close> is \<^term>\<open>prefix p s\<close>.\<close>

section \<open>Regular expressions\<close>

text \<open>
  The patterns of the repository use literals, character classes, \<^verbatim>\<open>.\<close>, \<^verbatim>\<open>\s\<close>,
  \<^verbatim>\<open>\d\<close>, \<^verbatim>\<open>\b\<close>, alternation, \<^verbatim>\<open>?\<close>, \<^verbatim>\<open>*\<close> and \<^verbatim>\<open>+\<close>. A position in the
  text is the character before it (if any) and the text that remains. \<open>ends r st\<close> lists
  the positions where a match of \<open>r\<close> starting at \<open>st\<close> can end, in the order in which
  Python's backtracking matcher tries them (greedy repetition first, alternatives left to
  right): its head is the match Python reports.
\<close>

datatype rx =
    Eps
  | Lit string
  | Cls "char \<Rightarrow> bool"
  | Dot
  | WordB
  | Seq rx rx
  | Alt rx rx
  | Opt rx
  | Star rx
  | Plus rx

type_synonym pos = "char option \<times> string"

fun one_char :: "(char \<Rightarrow> bool) \<Rightarrow> pos \<Rightarrow> pos list" where
  "one_char P (p, []) = []"
| "one_char P (p, c # cs) = (if P c then [(Some c, cs)] else [])"

fun lit_ends :: "string \<Rightarrow> pos \<Rightarrow> pos list" where
  "lit_ends [] st = [st]"
| "lit_ends (x # xs) (p, []) = []"
| "lit_ends (x # xs) (p, c # cs) = (if x = c then lit_ends xs (Some c, cs) else [])"

text \<open>
  \<^verbatim>\<open>\b\<close>: exactly one of the characters before and after the position is a word
  character; the start and the end of the text count as non-word.
\<close>

fun at_boundary :: "pos \<Rightarrow> bool" where
  "at_boundary (p, s) =
     ((case p of None \<Rightarrow> False | Some c \<Rightarrow> is_word c) \<noteq>
      (case s of [] \<Rightarrow> False | c # _ \<Rightarrow> is_word c))"

text \<open>
  Repetition: after each match of the body that consumed something, repeat; then the
  position itself (zero further repetitions). The counter bounds the number of rounds by
  the length of the remaining text.
\<close>

fun iter :: "(pos \<Rightarrow> pos list) \<Rightarrow> nat \<Rightarrow> pos \<Rightarrow> pos list" where
  "iter f 0 st = [st]"
| "iter f (Suc n) st =
     concat (map (iter f n) (filter (\<lambda>st'. length (snd st') < length (snd st)) (f st))) @ [st]"

fun ends :: "rx \<Rightarrow> pos \<Rightarrow> pos list" where
  "ends Eps st = [st]"
| "ends (Lit s) st = lit_ends s st"
| "ends (Cls P) st = one_char P st"
| "ends Dot st = one_char (\<lambda>c. c \<noteq> CHR 0x0A) st"
| "ends WordB st = (if at_boundary st then [st] else [])"
| "ends (Seq a b) st = concat (map (\<lambda>st'. ends b st') (ends a st))"
| "ends (Alt a b) st = ends a st @ ends b st"
| "ends (Opt a) st = ends a st @ [st]"
| "ends (Star a) st = iter (\<lambda>st'. ends a st') (length (snd st)) st"
| "ends (Plus a) st =
     concat (map (\<lambda>st1. iter (\<lambda>st'. ends a st') (length (snd st1)) st1) (ends a st))"

text \<open>\<^verbatim>\<open>re.search(pat, text)\<close> as a truth value: some position starts a match.\<close>

fun search_from :: "rx \<Rightarrow> pos \<Rightarrow> bool" where
  "search_from r (p, []) = (ends r (p, []) \<noteq> [])"
| "search_from r (p, c # cs) = (ends r (p, c # cs) \<noteq> [] \<or> search_from r (Some c, cs))"

definition re_search :: "rx \<Rightarrow> string \<Rightarrow> bool" where
  "re_search r text = search_from r (None, text)"

section \<open>The failsafe executor (agent/failsafe.py)\<close>

text \<open>
  \<^verbatim>\<open>_BAD_PATTERNS\<close>, in the order of the source:
  \<^verbatim>\<open>\bnan\b\<close>, \<^verbatim>\<open>could not parse\<close>, \<^verbatim>\<open>invalid +json\<close>, \<^verbatim>\<open>unavailable\<close>,
  \<^verbatim>\<open>no price data found\<close>, \<^verbatim>\<open>yfinance.*failed\<close>, \<^verbatim>\<open>request timed out\<close>,
  \<^verbatim>\<open>error:\<close>, \<^verbatim>\<open>exception\<close>.
\<close>

definition BAD_PATTERNS :: "rx list" where
  "BAD_PATTERNS =
     [Seq WordB (Seq (Lit ''nan'') WordB),
      Lit ''could not parse'',
      Seq (Lit ''invalid'') (Seq (Plus (Cls (\<lambda>c. c = CHR '' ''))) (Lit ''json'')),
      Lit ''unavailable'',
      Lit ''no price data found'',
      Seq (Lit ''yfinance'') (Seq (Star Dot) (Lit ''failed'')),
      Lit ''request timed out'',
      Lit ''error:'',
      Lit ''exception'']"

text \<open>
  \<^verbatim>\<open>_looks_broken\<close>. \<open>strict\<close> is the module constant \<^verbatim>\<open>FAILSAFE_STRICT\<close>, read from
  the environment when the module is loaded.
\<close>

definition looks_broken :: "bool \<Rightarrow> string \<Rightarrow> bool" where
  "looks_broken strict output =
     (if \<not> strict then False
      else if output = [] then True
      else let text = lower output in
        if sublist ''expected annual return:'' text \<and> \<not> sublist ''nan'' text then False
        else if list_ex (\<lambda>pat. re_search pat text) BAD_PATTERNS then True
        else if sublist ''expected annual return:'' text \<and> sublist ''nan'' text then True
        else False)"

text \<open>
  A callable either raises an exception (one that \<^verbatim>\<open>except Exception\<close> catches) or
  returns. Handlers and the chat capability act on the outside world (network, files, the
  language model), a state \<open>'w\<close> that is threaded through the calls.
\<close>

datatype 'a outcome = Raised | Returned 'a

type_synonym 'w handler = "'w \<Rightarrow> string outcome \<times> 'w"

text \<open>
  What \<^verbatim>\<open>executor.invoke\<close> returns: a dict with the key \<^verbatim>\<open>output\<close>, a dict without it,
  or an object that is not a dict (given by its \<^verbatim>\<open>str()\<close>).
\<close>

datatype chat_result = Dict_output string | Dict_no_output | Not_dict string

type_synonym 'w chat = "string \<Rightarrow> 'w \<Rightarrow> chat_result outcome \<times> 'w"

text \<open>The calls made during a run, oldest first (a ghost record, not data of the source).\<close>

datatype call = Handler_call nat | Chat_call string

text \<open>The em dash of the source's messages, in UTF-8.\<close>

definition em_dash :: string where
  "em_dash = [CHR 0xE2, CHR 0x80, CHR 0x94]"

text \<open>\<^verbatim>\<open>run_and_comply\<close> (agent/agent.py).\<close>

definition run_and_comply :: "'w chat \<Rightarrow> string \<Rightarrow> 'w \<Rightarrow> string \<times> 'w" where
  "run_and_comply executor prompt w =
     (case executor prompt w of
        (Raised, w') \<Rightarrow> (''Sorry '' @ em_dash @ '' something went wrong while processing that.'', w')
      | (Returned (Dict_output s), w') \<Rightarrow> (s, w')
      | (Returned Dict_no_output, w') \<Rightarrow> ([], w')
      | (Returned (Not_dict s), w') \<Rightarrow> (s, w'))"

text \<open>
  The loop of \<^verbatim>\<open>run_with_failsafe\<close> over the handlers that remain; \<open>i\<close> is the index
  of the next handler. A handler's value is taken as the text \<^verbatim>\<open>str(out)\<close>. A handler that
  raises, or whose text looks broken (the source raises \<^verbatim>\<open>RuntimeError\<close> itself, inside the
  same \<^verbatim>\<open>try\<close>), is passed over. \<open>None\<close>: the loop ended without a \<^verbatim>\<open>return\<close>.
\<close>

fun try_handlers ::
  "bool \<Rightarrow> 'w handler list \<Rightarrow> nat \<Rightarrow> 'w \<Rightarrow> call list \<Rightarrow> string option \<times> 'w \<times> call list" where
  "try_handlers strict [] i w calls = (None, w, calls)"
| "try_handlers strict (h # hs) i w calls =
     (case h w of
        (Raised, w') \<Rightarrow> try_handlers strict hs (Suc i) w' (calls @ [Handler_call i])
      | (Returned out_str, w') \<Rightarrow>
          if looks_broken strict out_str
          then try_handlers strict hs (Suc i) w' (calls @ [Handler_call i])
          else (Some out_str, w', calls @ [Handler_call i]))"

definition run_with_failsafe ::
  "bool \<Rightarrow> string \<Rightarrow> 'w handler list \<Rightarrow> 'w chat \<Rightarrow> 'w \<Rightarrow> string \<times> 'w \<times> call list" where
  "run_with_failsafe strict question handlers chat w =
     (case try_handlers strict handlers 0 w [] of
        (Some out_str, w', calls) \<Rightarrow> (out_str, w', calls)
      | (None, w', calls) \<Rightarrow>
          (case run_and_comply chat question w' of
             (text, w'') \<Rightarrow> (text, w'', calls @ [Chat_call question])))"

text \<open>
  The handlers as they behave when run one after the other from \<open>w\<close>: the outcome of
  each, and the world after all of them.
\<close>

fun outcomes :: "'w handler list \<Rightarrow> 'w \<Rightarrow> string outcome list" where
  "outcomes [] w = []"
| "outcomes (h # hs) w = fst (h w) # outcomes hs (snd (h w))"

fun world_after :: "'w handler list \<Rightarrow> 'w \<Rightarrow> 'w" where
  "world_after [] w = w"
| "world_after (h # hs) w = world_after hs (snd (h w))"

text \<open>A handler failed: it raised, or its text did not pass the quality gate.\<close>

fun failed :: "bool \<Rightarrow> string outcome \<Rightarrow> bool" where
  "failed strict Raised = True"
| "failed strict (Returned s) = looks_broken strict s"

text \<open>
  \<open>standalone w text\<close>: \<open>w\<close> occurs in \<open>text\<close> between word boundaries, which is what
  \<^verbatim>\<open>\b\<close> on both sides of a word asks for.
\<close>

definition standalone :: "string \<Rightarrow> string \<Rightarrow> bool" where
  "standalone w text \<longleftrightarrow>
     (\<exists>pre post. text = pre @ w @ post \<and>
        (pre = [] \<or> \<not> is_word (last pre)) \<and> (post = [] \<or> \<not> is_word (hd post)))"

text \<open>The character before the position that follows \<open>pre\<close>.\<close>

definition prev_of :: "char option \<Rightarrow> string \<Rightarrow> char option" where
  "prev_of p pre = (if pre = [] then p else Some (last pre))"

text \<open>
  The denylist as the specification words it, every entry a plain substring:
  "nan", "could not parse", "unavailable", "no price data found", "request timed out",
  "exception", "error:".
\<close>

definition spec_denylist :: "string list" where
  "spec_denylist =
     [''nan'', ''could not parse'', ''unavailable'', ''no price data found'',
      ''request timed out'', ''exception'', ''error:'']"

section \<open>Compliance (agent/compliance.py)\<close>

definition GENERIC_DISCLAIMER :: string where
  "GENERIC_DISCLAIMER =
     ''This content is for informational purposes only and is not financial advice. '' @
     ''No offer, solicitation, or recommendation is being made. '' @
     ''Past performance does not guarantee future results. '' @
     ''For personalized guidance, consult a licensed professional. '' @
     ''Data sources may be delayed or inaccurate; verify independently. '' @
     ''GDPR simulation: you can request deletion of your stored data with 'forget me'. '' @
     ''Recommendations are hypothetical and not personalized advice under SEC rules. ''"

definition BANNED_PHRASES :: "string list" where
  "BANNED_PHRASES =
     [''guaranteed profit'', ''surefire'', ''inside information'',
      ''front-run'', ''pump and dump'', ''tax evasion'',
      ''insider trading'', ''day trading strategy'', ''spoofing'',
      ''dark edge'', ''gray edge'']"

text \<open>The refusal; its apostrophe is the right single quotation mark, in UTF-8.\<close>

definition REFUSAL :: string where
  "REFUSAL =
     ''I can'' @ [CHR 0xE2, CHR 0x80, CHR 0x99] @
     ''t assist with that request (compliance). If you want, I can explain legal, diversified approaches instead.''"

definition guard_and_disclaim :: "string \<Rightarrow> bool \<Rightarrow> bool \<times> string" where
  "guard_and_disclaim text banned_only =
     (let lower_text = lower text in
      if list_ex (\<lambda>p. sublist p lower_text) BANNED_PHRASES then (False, REFUSAL)
      else if banned_only then (True, text)
      else (True, text @ [CHR 0x0A, CHR 0x0A] @ GENERIC_DISCLAIMER @
        ''We avoid favoritism toward individual securities; suggestions are diversified and ETF-first where possible.''))"

text \<open>The text contains a banned phrase, in any mix of upper and lower case.\<close>

definition has_banned_phrase :: "string \<Rightarrow> bool" where
  "has_banned_phrase text \<longleftrightarrow> (\<exists>p \<in> set BANNED_PHRASES. sublist p (lower text))"

section \<open>Portfolio analytics (agent/portfolio.py)\<close>

text \<open>
  Python floats are modelled as real numbers: the arithmetic is exact, rounding is not
  modelled. \<^verbatim>\<open>risk_fit_label\<close>; \<open>None\<close> is Python's \<^verbatim>\<open>None\<close> for the tolerance.
\<close>

definition risk_fit_label :: "real \<Rightarrow> string option \<Rightarrow> string" where
  "risk_fit_label vol tolerance =
     (let tol = strip (lower (case tolerance of None \<Rightarrow> [] | Some t \<Rightarrow> t)) in
      if tol \<in> {''conservative'', ''low''}
        then (if vol < 0.10 then ''fit'' else ''too volatile'')
      else if tol \<in> {''moderate'', ''medium''}
        then (if vol < 0.20 then ''fit'' else ''too volatile'')
      else if tol \<in> {''aggressive'', ''high''}
        then (if vol < 0.35 then ''fit'' else ''too volatile'')
      else ''unknown'')"

text \<open>The tolerance after the source's normalisation, and the threshold the claim gives it.\<close>

definition norm_tolerance :: "string \<Rightarrow> string" where
  "norm_tolerance t = strip (lower t)"

section \<open>The fraud screener (agent/fraud.py)\<close>

text \<open>
  \<^verbatim>\<open>zscore_flag\<close>. \<^verbatim>\<open>x ** 0.5\<close> is the square root; \<^verbatim>\<open>sd or 1.0\<close> replaces a
  standard deviation that is zero by 1.0 and leaves any other value as it is.
\<close>

definition zscore_flag :: "real \<Rightarrow> real list \<Rightarrow> bool" where
  "zscore_flag amount history =
     (if history = [] \<or> length history < 5 then False
      else
        let mu = sum_list history / real (length history);
            sd0 = sqrt (sum_list (map (\<lambda>x. (x - mu) ^ 2) history) / real (length history));
            sd = (if sd0 = 0 then 1 else sd0)
        in \<bar>(amount - mu) / sd\<bar> > 3)"

text \<open>
  A transaction, as the dict that \<^verbatim>\<open>json.loads\<close> gives: \<open>None\<close> is a missing key or a
  null. \<open>tx_hour\<close> is \<^verbatim>\<open>int(tx["hour"])\<close> where the key is there and converts;
  \<open>tx_time_hour\<close> is \<^verbatim>\<open>int(t.split(":")[0])\<close> where \<^verbatim>\<open>time\<close> or \<^verbatim>\<open>timestamp\<close> is a
  string with a colon whose head converts.
\<close>

record tx =
  tx_amount :: "real option"
  tx_counterparty :: "string option"
  tx_hour :: "int option"
  tx_time_hour :: "int option"

definition parse_hour :: "tx \<Rightarrow> int" where
  "parse_hour t =
     (case tx_hour t of Some h \<Rightarrow> h
      | None \<Rightarrow> (case tx_time_hour t of Some h \<Rightarrow> h | None \<Rightarrow> - 1))"

text \<open>The policy dict; a key that is absent takes the default of the source.\<close>

record policy =
  odd_hours :: "int list option"
  large_amount_threshold :: "real option"

record details =
  flags :: "string list"
  amount :: real
  hour :: int
  counterparty :: string

text \<open>
  \<^verbatim>\<open>simple_fraud_check\<close>. \<open>None\<close> for an optional argument is Python's \<^verbatim>\<open>None\<close>. The
  history is a mapping given by its items; it is falsy when it has none.
\<close>

definition simple_fraud_check ::
  "tx \<Rightarrow> string set option \<Rightarrow> policy option \<Rightarrow> (string \<times> real list) list option
     \<Rightarrow> bool \<times> details" where
  "simple_fraud_check t known_counterparties pol history_by_cp =
     (let odd = (case pol of None \<Rightarrow> [0, 1, 2, 3, 4]
                 | Some p \<Rightarrow> (case odd_hours p of None \<Rightarrow> [0, 1, 2, 3, 4] | Some hs \<Rightarrow> hs));
          large_amt = (case pol of None \<Rightarrow> 5000
                 | Some p \<Rightarrow> (case large_amount_threshold p of None \<Rightarrow> 5000 | Some a \<Rightarrow> a));
          amt = (case tx_amount t of None \<Rightarrow> 0 | Some a \<Rightarrow> a);
          cp = strip (case tx_counterparty t of None \<Rightarrow> [] | Some c \<Rightarrow> c);
          hr = parse_hour t;
          f1 = (if hr \<in> set odd then [''odd-hour''] else []);
          f2 = (case known_counterparties of
                  None \<Rightarrow> []
                | Some known \<Rightarrow> if cp \<noteq> [] \<and> cp \<notin> known then [''unknown-counterparty''] else []);
          f3 = (if amt \<ge> large_amt then [''large-amount''] else []);
          f4 = (case history_by_cp of
                  None \<Rightarrow> []
                | Some hist \<Rightarrow>
                    if hist \<noteq> [] \<and> cp \<noteq> []
                    then (if zscore_flag amt (case map_of hist cp of None \<Rightarrow> [] | Some h \<Rightarrow> h)
                          then [''amount-anomaly''] else [])
                    else []);
          fl = f1 @ f2 @ f3 @ f4
      in (fl \<noteq> [], \<lparr>flags = fl, amount = amt, hour = hr, counterparty = cp\<rparr>))"

text \<open>
  \<^verbatim>\<open>tool_fraud_check\<close> (agent/tools.py) on the transaction that \<^verbatim>\<open>json.loads\<close> gave
  (\<open>None\<close>: the text was not JSON, and the tool answers with a fixed message). The value is
  the pair the source then formats into its answer. \<^verbatim>\<open>known_counterparties or set()\<close>
  turns a missing set into the empty set.
\<close>

definition tool_fraud_check ::
  "tx option \<Rightarrow> string set option \<Rightarrow> policy option \<Rightarrow> string + bool \<times> details" where
  "tool_fraud_check parsed known_counterparties pol =
     (case parsed of
        None \<Rightarrow> Inl ''Invalid JSON transaction. Expect keys: amount, counterparty, hour.''
      | Some t \<Rightarrow>
          Inr (simple_fraud_check t
                 (Some (case known_counterparties of None \<Rightarrow> {} | Some k \<Rightarrow> k)) pol None))"





section \<open>The price cache (agent/cache.py)\<close>

text \<open>
  The cache is a CSV file with the header \<^verbatim>\<open>symbol,date,price,ts\<close>, as
  \<^verbatim>\<open>put_cached_price\<close> creates it. It is modelled by its data rows, oldest first;
  \<open>None\<close> is the file that does not exist yet. \<open>row_price\<close> and
  \<open>row_ts\<close> are \<^verbatim>\<open>float(row["price"])\<close> and \<^verbatim>\<open>float(row["ts"])\<close>, \<open>None\<close> where the text
  of the field is not a number (\<^verbatim>\<open>float\<close> raises there).
\<close>

record cache_row =
  row_symbol :: string
  row_date :: string
  row_price :: "real option"
  row_ts :: "real option"

type_synonym cache_file = "cache_row list option"

text \<open>\<^verbatim>\<open>CACHE_TTL_S = int(float(CACHE_TTL_HOURS) * 3600)\<close>, the hours being an integer.\<close>

definition CACHE_TTL_S :: "int \<Rightarrow> real" where
  "CACHE_TTL_S ttl_hours = of_int (ttl_hours * 3600)"

text \<open>The loop over the rows: \<^verbatim>\<open>latest = row  # keep the last one\<close>.\<close>

fun keep_last :: "string \<Rightarrow> string \<Rightarrow> cache_row list \<Rightarrow> cache_row option \<Rightarrow> cache_row option" where
  "keep_last sy date [] latest = latest"
| "keep_last sy date (row # rows) latest =
     keep_last sy date rows
       (if upper (row_symbol row) = sy \<and> row_date row = date then Some row else latest)"

text \<open>
  \<^verbatim>\<open>get_cached_price\<close>. \<open>read_ok\<close>: opening and reading the file raises nothing; \<open>now\<close> is
  \<^verbatim>\<open>time.time()\<close>. Every exception inside ends in \<^verbatim>\<open>return None\<close>.
\<close>

definition get_cached_price ::
  "int \<Rightarrow> bool \<Rightarrow> real \<Rightarrow> cache_file \<Rightarrow> string \<Rightarrow> string \<Rightarrow> real option" where
  "get_cached_price ttl_hours read_ok now file symbol date =
     (case file of
        None \<Rightarrow> None
      | Some rows \<Rightarrow>
          if \<not> read_ok then None
          else (case keep_last (upper symbol) date rows None of
                  None \<Rightarrow> None
                | Some latest \<Rightarrow>
                    (case row_ts latest of
                       None \<Rightarrow> None
                     | Some ts \<Rightarrow>
                         if now - ts > CACHE_TTL_S ttl_hours then None else row_price latest)))"

text \<open>
  \<^verbatim>\<open>put_cached_price\<close>: one row is appended (after the header, when the file is new).
  \<open>write_ok\<close>: creating the directory, opening and writing raise nothing; otherwise the
  exception is logged and the file is as before.
\<close>

definition put_cached_price ::
  "bool \<Rightarrow> real \<Rightarrow> cache_file \<Rightarrow> string \<Rightarrow> string \<Rightarrow> real \<Rightarrow> cache_file" where
  "put_cached_price write_ok now file symbol date price =
     (if \<not> write_ok then file
      else Some ((case file of None \<Rightarrow> [] | Some rows \<Rightarrow> rows) @
             [\<lparr>row_symbol = upper symbol, row_date = date,
               row_price = Some price, row_ts = Some now\<rparr>]))"


section \<open>Price resolution (agent/tools.py)\<close>

definition BOND_MAP :: "(string \<times> string) list" where
  "BOND_MAP = [(''BONDS'', ''BND'')]"

definition map_symbol :: "string \<Rightarrow> string" where
  "map_symbol symb = (let s = upper (strip symb) in case map_of BOND_MAP s of Some v \<Rightarrow> v | None \<Rightarrow> s)"

text \<open>
  What the Alpha Vantage request comes to: an exception anywhere in the request, the
  status check, the JSON decoding or the conversion of the price; a payload without a
  price; a price.
\<close>

datatype av_reply = AV_fails | AV_no_price | AV_price real

text \<open>
  The outside world during one call: the date, the clock, the environment variable
  \<^verbatim>\<open>ALPHAVANTAGE_API_KEY\<close>, the providers (for yfinance the \<^verbatim>\<open>Close\<close> column of the
  intraday and of the daily history, or an exception), and whether the cache file can be
  read and written.
\<close>

record market =
  today :: string
  clock :: real
  ttl_hours :: int
  api_key :: "string option"
  alpha_vantage :: "string \<Rightarrow> av_reply"
  yf_intraday :: "string \<Rightarrow> real list outcome"
  yf_daily :: "string \<Rightarrow> real list outcome"
  read_ok :: bool
  write_ok :: bool

text \<open>The requests sent to providers, oldest first (a ghost record).\<close>

datatype request = Alpha_Vantage string | YF_intraday string | YF_daily string

definition alpha_vantage_price :: "market \<Rightarrow> string \<Rightarrow> real option \<times> string" where
  "alpha_vantage_price m symbol =
     (case alpha_vantage m symbol of
        AV_fails \<Rightarrow> (None, ''alpha_vantage:error'')
      | AV_no_price \<Rightarrow> (None, ''alpha_vantage:no_price'')
      | AV_price p \<Rightarrow> (Some p, ''alpha_vantage''))"

text \<open>\<^verbatim>\<open>_latest_price_yf\<close>, with the requests it sends.\<close>

definition latest_price_yf :: "market \<Rightarrow> string \<Rightarrow> (real option \<times> string) \<times> request list" where
  "latest_price_yf m symbol =
     (case yf_intraday m symbol of
        Raised \<Rightarrow> ((None, ''yfinance:error''), [YF_intraday symbol])
      | Returned df \<Rightarrow>
          if df \<noteq> [] then ((Some (last df), ''yfinance (intraday)''), [YF_intraday symbol])
          else (case yf_daily m symbol of
                  Raised \<Rightarrow> ((None, ''yfinance:error''), [YF_intraday symbol, YF_daily symbol])
                | Returned df2 \<Rightarrow>
                    if df2 \<noteq> []
                    then ((Some (last df2), ''yfinance:last_close''),
                          [YF_intraday symbol, YF_daily symbol])
                    else ((None, ''yfinance:unavailable''),
                          [YF_intraday symbol, YF_daily symbol])))"

text \<open>
  \<^verbatim>\<open>get_latest_price\<close>: the answer, the cache file afterwards and the requests sent.
\<close>

definition get_latest_price ::
  "market \<Rightarrow> cache_file \<Rightarrow> string \<Rightarrow> (real option \<times> string) \<times> cache_file \<times> request list" where
  "get_latest_price m file symbol =
     (let sy = map_symbol symbol in
      case get_cached_price (ttl_hours m) (read_ok m) (clock m) file sy (today m) of
        Some cached \<Rightarrow> ((Some cached, ''cache:today''), file, [])
      | None \<Rightarrow>
          (let av = (case api_key m of
                       None \<Rightarrow> None
                     | Some k \<Rightarrow> if k = [] then None else Some (alpha_vantage_price m sy));
               sent = (case av of None \<Rightarrow> [] | Some _ \<Rightarrow> [Alpha_Vantage sy])
           in case av of
                Some (Some p, src) \<Rightarrow>
                  ((Some p, src), put_cached_price (write_ok m) (clock m) file sy (today m) p, sent)
              | _ \<Rightarrow>
                  (case latest_price_yf m sy of
                     ((Some p, src), reqs) \<Rightarrow>
                       ((Some p, src),
                        put_cached_price (write_ok m) (clock m) file sy (today m) p, sent @ reqs)
                   | ((None, src), reqs) \<Rightarrow> ((None, src), file, sent @ reqs))))"

section \<open>Allocations (agent/portfolio.py, jagent.py)\<close>

text \<open>
  Both allocation patterns are
  \<^verbatim>\<open>(\d+(?:\.\d+)?)\s*%\s*(SYMBOL)\<close>; the symbol is
  \<^verbatim>\<open>[A-Za-z0-9][A-Za-z0-9.\-_]*\<close> in \<^verbatim>\<open>parse_percent_alloc\<close> and
  \<^verbatim>\<open>[A-Za-z][A-Za-z0-9.\-_]+\<close> in \<^verbatim>\<open>_alloc_only\<close>.
\<close>

definition pct_rx :: rx where
  "pct_rx = Seq (Plus (Cls is_digit)) (Opt (Seq (Lit ''.'') (Plus (Cls is_digit))))"

definition sep_rx :: rx where
  "sep_rx = Seq (Star (Cls is_space)) (Seq (Lit ''%'') (Star (Cls is_space)))"

definition sym_char :: "char \<Rightarrow> bool" where
  "sym_char c = (is_alnum c \<or> c = CHR ''.'' \<or> c = CHR ''-'' \<or> c = CHR ''_'')"

definition parse_sym_rx :: rx where
  "parse_sym_rx = Seq (Cls is_alnum) (Star (Cls sym_char))"

definition alloc_sym_rx :: rx where
  "alloc_sym_rx = Seq (Cls (\<lambda>c. is_upper c \<or> is_lower c)) (Plus (Cls sym_char))"

text \<open>The text matched between two positions.\<close>

definition between :: "pos \<Rightarrow> pos \<Rightarrow> string" where
  "between a b = take (length (snd a) - length (snd b)) (snd a)"

text \<open>
  The match of the whole pattern at a position, if any: its two groups and where it ends.
  The candidates are in the matcher's order, the first is the match.
\<close>

definition match_pair :: "rx \<Rightarrow> pos \<Rightarrow> (string \<times> string \<times> pos) option" where
  "match_pair sym_rx st =
     (case concat (map (\<lambda>e1. concat (map (\<lambda>e2.
              map (\<lambda>e3. (between st e1, between e2 e3, e3)) (ends sym_rx e2))
            (ends sep_rx e1))) (ends pct_rx st)) of
        [] \<Rightarrow> None
      | m # _ \<Rightarrow> Some m)"

text \<open>
  \<^verbatim>\<open>re.findall\<close>: the matches from left to right, without overlap. After a match the
  scan goes on where it ended (one character further if the match were empty); where
  nothing matches it moves one character on.
\<close>

function findall_pairs :: "rx \<Rightarrow> pos \<Rightarrow> (string \<times> string) list" where
  "findall_pairs sym_rx (p, s) =
     (case match_pair sym_rx (p, s) of
        Some (g1, g2, e) \<Rightarrow>
          if length (snd e) < length s then (g1, g2) # findall_pairs sym_rx e
          else (g1, g2) # (case s of [] \<Rightarrow> [] | c # cs \<Rightarrow> findall_pairs sym_rx (Some c, cs))
      | None \<Rightarrow> (case s of [] \<Rightarrow> [] | c # cs \<Rightarrow> findall_pairs sym_rx (Some c, cs)))"
  by pat_completeness auto
termination
  by (relation "measure (\<lambda>(r, st). length (snd st))") auto

text \<open>\<^verbatim>\<open>float\<close> on a text of the form digits, or digits, a point, digits.\<close>

definition digit_val :: "char \<Rightarrow> nat" where
  "digit_val c = code c - 48"

definition nat_of_digits :: "string \<Rightarrow> nat" where
  "nat_of_digits ds = foldl (\<lambda>n c. 10 * n + digit_val c) 0 ds"

definition float_of_decimal :: "string \<Rightarrow> real" where
  "float_of_decimal s =
     (let ip = takeWhile (\<lambda>c. c \<noteq> CHR ''.'') s;
          fp = drop (Suc (length ip)) s
      in real (nat_of_digits ip) + real (nat_of_digits fp) / 10 ^ length fp)"

text \<open>\<^verbatim>\<open>sep.join(xs)\<close>.\<close>

fun join :: "string \<Rightarrow> string list \<Rightarrow> string" where
  "join sep [] = []"
| "join sep [x] = x"
| "join sep (x # y # ys) = x @ sep @ join sep (y # ys)"

definition STOP :: "string list" where
  "STOP = [''IN'', ''OF'', ''TO'', ''INTO'', ''ON'', ''AT'']"

definition ALIAS :: "(string \<times> string) list" where
  "ALIAS = [(''BONDS'', ''BND''), (''BOND'', ''BND''), (''FIXEDINCOME'', ''BND''), (''APPL'', ''AAPL'')]"

text \<open>\<^verbatim>\<open>_alloc_only\<close> (jagent.py).\<close>

definition alloc_only :: "string \<Rightarrow> string" where
  "alloc_only text =
     (let pairs = findall_pairs alloc_sym_rx (None, text) in
      if pairs = [] then []
      else join '', ''
        (concat (map (\<lambda>(pct, symb).
           let s = rstrip_chars ''.,;:)'' (upper (strip symb)) in
           if s \<in> set STOP then []
           else [pct @ ''% '' @ (case map_of ALIAS s of Some a \<Rightarrow> a | None \<Rightarrow> s)]) pairs)))"

datatype error = ValueError string

text \<open>
  A dict is the list of its items in insertion order, the keys distinct:
  \<^verbatim>\<open>d[k] = v\<close> is \<^term>\<open>AList.update k v d\<close>, which keeps the place of a key that is there.
\<close>

definition dict_get :: "(string \<times> real) list \<Rightarrow> string \<Rightarrow> real \<Rightarrow> real" where
  "dict_get d k dflt = (case map_of d k of Some v \<Rightarrow> v | None \<Rightarrow> dflt)"

definition normalize_allocations :: "(string \<times> real) list \<Rightarrow> error + (string \<times> real) list" where
  "normalize_allocations alloc =
     (let total = sum_list (map snd alloc) in
      if total \<le> 0 then Inl (ValueError ''Allocation weights must sum to > 0'')
      else Inr (map (\<lambda>(k, v). (k, v / total)) alloc))"

text \<open>The loop of \<^verbatim>\<open>parse_percent_alloc\<close> over the pairs found.\<close>

fun accumulate :: "(string \<times> string) list \<Rightarrow> (string \<times> real) list \<Rightarrow> (string \<times> real) list" where
  "accumulate [] out = out"
| "accumulate ((pct_str, symb) # pairs) out =
     (let w = float_of_decimal pct_str / 100;
          sym_clean = upper (filter is_alnum symb)
      in if sym_clean = [] then accumulate pairs out
         else accumulate pairs (AList.update sym_clean (dict_get out sym_clean 0 + w) out))"

definition parse_percent_alloc :: "string \<Rightarrow> error + (string \<times> real) list" where
  "parse_percent_alloc s =
     (let out = accumulate (findall_pairs parse_sym_rx (None, s)) [] in
      if out = [] then Inl (ValueError ''Could not parse any allocations.'')
      else normalize_allocations out)"

section \<open>Notions used in the statements about the fraud screener\<close>

text \<open>The counterparty and the amount as \<^verbatim>\<open>simple_fraud_check\<close> reads them.\<close>

definition tx_cp :: "tx \<Rightarrow> string" where
  "tx_cp t = strip (case tx_counterparty t of None \<Rightarrow> [] | Some c \<Rightarrow> c)"




definition tx_test :: tx where
  "tx_test = \<lparr>tx_amount = Some 6000, tx_counterparty = Some ''X'', tx_hour = Some 0,
               tx_time_hour = None\<rparr>"

section \<open>Notions used in the statements about prices\<close>

text \<open>Sample rows: two for NVDA on the same day, the later one in lower case, and one for AAPL.\<close>

definition row_old :: cache_row where
  "row_old = \<lparr>row_symbol = ''NVDA'', row_date = ''2025-01-02'', row_price = Some 100, row_ts = Some 1000\<rparr>"

definition row_new :: cache_row where
  "row_new = \<lparr>row_symbol = ''nvda'', row_date = ''2025-01-02'', row_price = Some 101, row_ts = Some 2000\<rparr>"

definition row_other :: cache_row where
  "row_other = \<lparr>row_symbol = ''AAPL'', row_date = ''2025-01-02'', row_price = Some 7, row_ts = Some 2500\<rparr>"

text \<open>A market where nothing answers: no key, empty histories, an empty cache to start from.\<close>

definition dead_market :: market where
  "dead_market = \<lparr>today = ''2025-01-02'', clock = 3000, ttl_hours = 1, api_key = None,
     alpha_vantage = (\<lambda>_. AV_fails), yf_intraday = (\<lambda>_. Returned []),
     yf_daily = (\<lambda>_. Returned []), read_ok = True, write_ok = True\<rparr>"

text \<open>\<^verbatim>\<open>if api_key:\<close> the variable is set and not empty.\<close>

definition has_key :: "market \<Rightarrow> bool" where
  "has_key m \<longleftrightarrow> (\<exists>k. api_key m = Some k \<and> k \<noteq> [])"

text \<open>The request to the primary provider, sent exactly when a key is configured.\<close>

definition av_sent :: "market \<Rightarrow> string \<Rightarrow> request list" where
  "av_sent m sy = (if has_key m then [Alpha_Vantage sy] else [])"

text \<open>The primary provider is asked and gives a price.\<close>

definition av_succeeds :: "market \<Rightarrow> string \<Rightarrow> bool" where
  "av_succeeds m sy \<longleftrightarrow> has_key m \<and> (\<exists>p. alpha_vantage m sy = AV_price p)"

text \<open>The cache lookup and the write-back of \<^verbatim>\<open>get_latest_price\<close>, under today's key.\<close>

definition cached_today :: "market \<Rightarrow> cache_file \<Rightarrow> string \<Rightarrow> real option" where
  "cached_today m cf sy = get_cached_price (ttl_hours m) (read_ok m) (clock m) cf sy (today m)"

definition write_back :: "market \<Rightarrow> cache_file \<Rightarrow> string \<Rightarrow> real \<Rightarrow> cache_file" where
  "write_back m cf sy p = put_cached_price (write_ok m) (clock m) cf sy (today m) p"

section \<open>Notions used in the statements about allocations\<close>







section \<open>The agent and the command line (agent/agent.py, jagent.py)\<close>

text \<open>
  What \<^verbatim>\<open>AgentExecutor.invoke\<close> returns: a dict with the key \<^verbatim>\<open>output\<close>, or one without
  it (given by its \<^verbatim>\<open>str()\<close>). The executor is the language model with its tools; it
  is given the input and the chat history.
\<close>

datatype exec_result = Exec_output string | Exec_other string

type_synonym memory = "(string \<times> string) list"

type_synonym 'w executor = "string \<Rightarrow> memory \<Rightarrow> 'w \<Rightarrow> exec_result outcome \<times> 'w"

text \<open>
  A session: the conversation memory, the outside world, and the inputs the executor was
  invoked with, oldest first (a ghost record).
\<close>

record 'w session =
  mem :: memory
  outside :: 'w
  llm_calls :: "string list"

definition APOLOGY :: string where
  "APOLOGY = ''Sorry '' @ em_dash @
     '' something went wrong while processing that. Try rephrasing or a simpler request.''"

text \<open>\<^verbatim>\<open>AgentWithMemory.invoke\<close>; the value is the \<^verbatim>\<open>output\<close> of the dict it returns.\<close>

definition agent_invoke :: "'w executor \<Rightarrow> string \<Rightarrow> 'w session \<Rightarrow> string \<times> 'w session" where
  "agent_invoke exec user_msg s =
     (case guard_and_disclaim user_msg True of
        (False, maybe_msg) \<Rightarrow> (maybe_msg, s)
      | (True, _) \<Rightarrow>
          (case exec user_msg (mem s) (outside s) of
             (r, w') \<Rightarrow>
               let ai_msg = (case r of
                               Raised \<Rightarrow> APOLOGY
                             | Returned (Exec_output out) \<Rightarrow> out
                             | Returned (Exec_other repr) \<Rightarrow> repr)
               in (snd (guard_and_disclaim ai_msg False),
                   s\<lparr>mem := mem s @ [(user_msg, ai_msg)], outside := w',
                     llm_calls := llm_calls s @ [user_msg]\<rparr>)))"

text \<open>The agent as the chat capability of \<^verbatim>\<open>run_with_failsafe\<close> (\<^verbatim>\<open>chat=agent\<close>).\<close>

definition agent_chat :: "'w executor \<Rightarrow> 'w session chat" where
  "agent_chat exec prompt s =
     (case agent_invoke exec prompt s of (out, s') \<Rightarrow> (Returned (Dict_output out), s'))"

text \<open>
  The deterministic tools of agent/tools.py, as callables on the outside world that return
  their text or raise; the portfolio tool also takes the risk tolerance.
\<close>

record 'w tools =
  stock_query :: "string \<Rightarrow> 'w handler"
  portfolio_analysis :: "string \<Rightarrow> string \<Rightarrow> 'w handler"
  fraud_check :: "string \<Rightarrow> 'w handler"
  sentiment :: "string \<Rightarrow> 'w handler"
  news_headlines :: "string \<Rightarrow> 'w handler"

text \<open>A tool call as a handler on the session.\<close>

definition on_session :: "'w handler \<Rightarrow> 'w session handler" where
  "on_session h s = (case h (outside s) of (r, w') \<Rightarrow> (r, s\<lparr>outside := w'\<rparr>))"

subsection \<open>Helpers of the main loop\<close>

definition lstrip_chars :: "string \<Rightarrow> string \<Rightarrow> string" where
  "lstrip_chars chars s = dropWhile (\<lambda>c. c \<in> set chars) s"

definition strip_chars :: "string \<Rightarrow> string \<Rightarrow> string" where
  "strip_chars chars s = rstrip_chars chars (lstrip_chars chars s)"

text \<open>\<^verbatim>\<open>s.split()\<close>: the maximal runs of characters that are not whitespace.\<close>

function words :: "string \<Rightarrow> string list" where
  "words s =
     (let t = lstrip s in
      if t = [] then []
      else takeWhile (\<lambda>c. \<not> is_space c) t # words (dropWhile (\<lambda>c. \<not> is_space c) t))"
  by pat_completeness auto
termination
proof (relation "measure length")
  fix s t :: string
  assume t: "t = lstrip s" "t \<noteq> []"
  then have "\<not> is_space (hd t)" unfolding lstrip_def using hd_dropWhile by metis
  then have "length (dropWhile (\<lambda>c. \<not> is_space c) t) < length t"
    using t(2) by (cases t) (auto intro: le_imp_less_Suc length_dropWhile_le)
  moreover have "length t \<le> length s" using t(1) by (simp add: lstrip_def length_dropWhile_le)
  ultimately show "(dropWhile (\<lambda>c. \<not> is_space c) t, s) \<in> measure length" by simp
qed simp

text \<open>\<^verbatim>\<open>s.split(maxsplit=1)[1]\<close>: what follows the first word and the whitespace after it;
  \<open>None\<close> is the \<^verbatim>\<open>IndexError\<close> of a text with fewer than two words.\<close>

definition after_first_word :: "string \<Rightarrow> string option" where
  "after_first_word s =
     (let r = lstrip (dropWhile (\<lambda>c. \<not> is_space c) (lstrip s)) in
      if r = [] then None else Some r)"

text \<open>\<^verbatim>\<open>s.split(sep, 1)[1]\<close>: what follows the first occurrence of \<open>sep\<close>; \<open>None\<close> is the
  \<^verbatim>\<open>IndexError\<close> of a text without it.\<close>

fun split_after :: "string \<Rightarrow> string \<Rightarrow> string option" where
  "split_after sep [] = (if sep = [] then Some [] else None)"
| "split_after sep (c # cs) =
     (if prefix sep (c # cs) then Some (drop (length sep) (c # cs)) else split_after sep cs)"

subsection \<open>Risk tolerance from free text (\<^verbatim>\<open>_infer_risk_freeform\<close>)\<close>

fun alts :: "rx list \<Rightarrow> rx" where
  "alts [] = Eps"
| "alts [r] = r"
| "alts (r # rs) = Alt r (alts rs)"

fun seqs :: "rx list \<Rightarrow> rx" where
  "seqs [] = Eps"
| "seqs [r] = r"
| "seqs (r # rs) = Seq r (seqs rs)"

definition ws_plus :: rx where "ws_plus = Plus (Cls is_space)"
definition ws_star :: rx where "ws_star = Star (Cls is_space)"

text \<open>
  \<^verbatim>\<open>\b(i am|i'm|my\s+risk(?:\s*(?:toler[ae]nce|preference|profile|level|appetite))?\s+is|\<close>
  \<^verbatim>\<open>assume\s+(?:i am|i'm)|consider me|treat me as|set\s+.*risk.*(?:to|as))\b\<close>
\<close>

definition cue_rx :: rx where
  "cue_rx = seqs [WordB,
     alts [Lit ''i am'', Lit ''i'm'',
           seqs [Lit ''my'', ws_plus, Lit ''risk'',
                 Opt (Seq ws_star
                   (alts [seqs [Lit ''toler'', Cls (\<lambda>c. c = CHR ''a'' \<or> c = CHR ''e''), Lit ''nce''],
                          Lit ''preference'', Lit ''profile'', Lit ''level'', Lit ''appetite''])),
                 ws_plus, Lit ''is''],
           seqs [Lit ''assume'', ws_plus, Alt (Lit ''i am'') (Lit ''i'm'')],
           Lit ''consider me'', Lit ''treat me as'',
           seqs [Lit ''set'', ws_plus, Star Dot, Lit ''risk'', Star Dot, Alt (Lit ''to'') (Lit ''as'')]],
     WordB]"

text \<open>
  \<^verbatim>\<open>re.search(r"\b(w1|w2|...)\b", t).group(1)\<close>: at the leftmost position where it
  matches, the first of the words that matches there between word boundaries.
\<close>

fun word_here :: "string list \<Rightarrow> pos \<Rightarrow> string option" where
  "word_here [] st = None"
| "word_here (w # ws) st =
     (if ends (seqs [WordB, Lit w, WordB]) st \<noteq> [] then Some w else word_here ws st)"

fun first_word :: "string list \<Rightarrow> pos \<Rightarrow> string option" where
  "first_word ws (p, []) = word_here ws (p, [])"
| "first_word ws (p, c # cs) =
     (case word_here ws (p, c # cs) of Some w \<Rightarrow> Some w | None \<Rightarrow> first_word ws (Some c, cs))"

text \<open>
  \<^verbatim>\<open>SYNONYMS\<close>, in the order of the dict. The first pattern has an empty alternative
  (\<^verbatim>\<open>risk on||risk[-\s]?on\<close>), as the source has it.
\<close>

definition SYNONYMS :: "(rx \<times> string) list" where
  "SYNONYMS =
     [(seqs [WordB,
         alts [Lit ''high risk'', Lit ''risk-on'', Lit ''risk on'', Eps,
               seqs [Lit ''risk'', Opt (Cls (\<lambda>c. c = CHR ''-'' \<or> is_space c)), Lit ''on''],
               Lit ''very aggressive'', Lit ''speculative'', Lit ''max risk''],
         WordB], ''aggressive''),
      (seqs [WordB,
         alts [Lit ''balanced'', Lit ''medium risk'', Lit ''average risk'', Lit ''moderately''],
         WordB], ''moderate''),
      (seqs [WordB,
         alts [Lit ''low risk'',
               seqs [Lit ''risk'', Opt (Cls (\<lambda>c. c = CHR ''-'' \<or> is_space c)), Lit ''off''],
               Lit ''risk-averse'', Lit ''risk averse'', Lit ''defensive'',
               Lit ''capital preservation''],
         WordB], ''conservative'')]"

definition infer_risk_freeform :: "string \<Rightarrow> string option" where
  "infer_risk_freeform text =
     (let t = lower text in
      if \<not> re_search cue_rx t then None
      else (case first_word [''conservative'', ''moderate'', ''aggressive''] (None, t) of
              Some w \<Rightarrow> Some w
            | None \<Rightarrow>
                (case filter (\<lambda>(pat, canon). re_search pat t) SYNONYMS of
                   [] \<Rightarrow> None
                 | (pat, canon) # _ \<Rightarrow> Some canon)))"

subsection \<open>The ticker of a price question (\<^verbatim>\<open>PRICE_TICKER_REGEX\<close>)\<close>

text \<open>At most \<open>n\<close> repetitions, as many as possible first: \<^verbatim>\<open>r{0,n}\<close>.\<close>

fun rep_upto :: "nat \<Rightarrow> rx \<Rightarrow> rx" where
  "rep_upto 0 r = Eps"
| "rep_upto (Suc n) r = Opt (Seq r (rep_upto n r))"

definition tick_rx :: rx where
  "tick_rx = Seq (Cls (\<lambda>c. is_upper c \<or> is_lower c))
               (rep_upto 9 (Cls (\<lambda>c. is_alnum c \<or> c = CHR ''.'' \<or> c = CHR ''-'')))"

text \<open>An apostrophe: the ASCII one or the right single quotation mark (UTF-8).\<close>

definition apostrophe :: rx where
  "apostrophe = Alt (Lit [CHR 0x27]) (Lit [CHR 0xE2, CHR 0x80, CHR 0x99])"

text \<open>
  First alternative: \<^verbatim>\<open>(?P<t1>T)(?:[AP]s)?\s+(?:price|quote)\b\<close>, where \<^verbatim>\<open>[AP]\<close> stands
  for the class of the two apostrophes; what follows the group.
\<close>

definition after_t1 :: rx where
  "after_t1 = seqs [Opt (Seq apostrophe (Lit ''s'')), ws_plus,
                    Alt (Lit ''price'') (Lit ''quote''), WordB]"

text \<open>
  Second alternative:
  \<^verbatim>\<open>\b(?:what(?:'s| is)\s+)?(?:the\s+)?(?:price|quote)\s+(?:of|for)?\s*(?P<t2>T)\b\<close>;
  what precedes the group.
\<close>

definition before_t2 :: rx where
  "before_t2 = seqs [WordB,
     Opt (seqs [Lit ''what'', Alt (Lit [CHR 0x27, CHR ''s'']) (Lit '' is''), ws_plus]),
     Opt (Seq (Lit ''the'') ws_plus),
     Alt (Lit ''price'') (Lit ''quote''), ws_plus,
     Opt (Alt (Lit ''of'') (Lit ''for'')), ws_star]"

text \<open>
  The text of the group in the first match of \<open>before\<close>, group, \<open>after\<close> at a position,
  the candidates taken in the matcher's order.
\<close>

definition capture_first :: "rx \<Rightarrow> rx \<Rightarrow> rx \<Rightarrow> pos \<Rightarrow> string option" where
  "capture_first before grp after st =
     (case concat (map (\<lambda>e0. concat (map (\<lambda>e1.
              map (\<lambda>e2. between e0 e1) (ends after e1))
            (ends grp e0))) (ends before st)) of
        [] \<Rightarrow> None
      | g # _ \<Rightarrow> Some g)"

definition ticker_here :: "pos \<Rightarrow> string option" where
  "ticker_here st =
     (case capture_first Eps tick_rx after_t1 st of
        Some g \<Rightarrow> Some g
      | None \<Rightarrow> capture_first before_t2 tick_rx WordB st)"

fun ticker_search :: "pos \<Rightarrow> string option" where
  "ticker_search (p, []) = ticker_here (p, [])"
| "ticker_search (p, c # cs) =
     (case ticker_here (p, c # cs) of Some g \<Rightarrow> Some g | None \<Rightarrow> ticker_search (Some c, cs))"

text \<open>
  \<^verbatim>\<open>re.sub(r"[AP]s$", "", raw)\<close>, with the same class of apostrophes: a possessive
  ending at the end of the text (or before its final line feed) is removed.
\<close>

definition drop_possessive :: "string \<Rightarrow> string" where
  "drop_possessive s =
     (let nl = (if s \<noteq> [] \<and> last s = CHR 0x0A then [CHR 0x0A] else []);
          body = take (length s - length nl) s
      in if suffix [CHR 0x27, CHR ''s''] body then take (length body - 2) body @ nl
         else if suffix [CHR 0xE2, CHR 0x80, CHR 0x99, CHR ''s''] body
           then take (length body - 4) body @ nl
         else s)"

text \<open>
  The pattern is compiled with \<^verbatim>\<open>re.I\<close>: the search runs on the lowercased text, and the
  group is uppercased afterwards, as the source does with it.
\<close>

definition price_ticker :: "string \<Rightarrow> string option" where
  "price_ticker user_in =
     (case ticker_search (None, lower user_in) of
        None \<Rightarrow> None
      | Some g \<Rightarrow> Some (rstrip_chars ''.,!?):;'' (drop_possessive (upper g))))"

subsection \<open>One turn of the main loop\<close>

text \<open>
  What the loop does with a line of input, its branches in the order of the source.
  \<open>Crash\<close>: an \<^verbatim>\<open>IndexError\<close> that nothing catches (the command word was typed with capitals
  and \<^verbatim>\<open>user_in.split(word, 1)\<close> does not find it).
\<close>

datatype route =
    Skip
  | Exit
  | Show_help
  | Show_help_topic string
  | Risk_from_text string
  | Set_risk string
  | Set_risk_usage
  | Forget_me
  | Price string
  | Analyze string
  | Analyze_usage
  | Fraud string
  | Sentiment string
  | Payee_add string
  | Payee_usage
  | News string
  | Payee_list
  | Alloc_guess string
  | Price_regex string
  | Freeform
  | Crash

text \<open>The branches from \<^verbatim>\<open>payee add\<close> on, tried when no earlier one applies.\<close>

definition route_late :: "string \<Rightarrow> string \<Rightarrow> route" where
  "route_late user_in low =
     (if prefix ''payee add '' low \<or> prefix ''counterparty add '' low then
        (let pre = (if prefix ''payee add '' low then ''payee add '' else ''counterparty add '');
             name = rstrip_chars ''.,;:''
                      (strip_chars [CHR 0x27] (strip_chars [CHR 0x22] (strip (drop (length pre) user_in))))
         in (if name = [] then Payee_usage else Payee_add name))
      else if prefix ''news '' low then
        (case split_after '' '' user_in of None \<Rightarrow> Crash | Some r \<Rightarrow> News (strip r))
      else if low \<in> {''payee list'', ''counterparty list'', ''payee/counterparty list''} then Payee_list
      else if alloc_only user_in \<noteq> [] \<and> sublist ''%'' (alloc_only user_in)
        then Alloc_guess (alloc_only user_in)
      else (case price_ticker user_in of Some ticker \<Rightarrow> Price_regex ticker | None \<Rightarrow> Freeform))"

text \<open>The branches from \<^verbatim>\<open>set risk\<close> to \<^verbatim>\<open>sentiment\<close>: the direct tool routes.\<close>

definition route_direct :: "string \<Rightarrow> string \<Rightarrow> route" where
  "route_direct user_in low =
     (if prefix ''set risk'' low then
        (if length (words low) \<ge> 3 then Set_risk (last (words low)) else Set_risk_usage)
      else if low = ''forget me'' then Forget_me
      else if prefix ''price '' low then
        (case after_first_word user_in of None \<Rightarrow> Crash | Some r \<Rightarrow> Price (strip r))
      else if prefix ''analyze portfolio'' low then
        (case split_after ''analyze portfolio'' user_in of
           None \<Rightarrow> Crash
         | Some r \<Rightarrow>
             (if alloc_only (strip r) = [] \<or> \<not> sublist ''%'' (alloc_only (strip r))
              then Analyze_usage else Analyze (alloc_only (strip r))))
      else if prefix ''fraud '' low then
        (case split_after ''fraud'' user_in of None \<Rightarrow> Crash | Some r \<Rightarrow> Fraud (strip r))
      else if prefix ''sentiment '' low then
        (case split_after '' '' user_in of None \<Rightarrow> Crash | Some r \<Rightarrow> Sentiment (strip r))
      else route_late user_in low)"

definition route_of :: "string \<Rightarrow> route" where
  "route_of line =
     (let user_in = strip line; low = strip (lower user_in) in
      if user_in = [] then Skip
      else if low \<in> {''exit'', ''quit''} then Exit
      else if low = ''help'' then Show_help
      else if prefix ''help '' low then
        (case split_after '' '' low of None \<Rightarrow> Crash | Some r \<Rightarrow> Show_help_topic (lower (strip r)))
      else (case infer_risk_freeform user_in of
              Some tol \<Rightarrow> Risk_from_text tol
            | None \<Rightarrow> route_direct user_in low))"

text \<open>
  The handlers and the question a route gives to \<^verbatim>\<open>run_with_failsafe\<close>; \<open>None\<close> for a
  route that calls neither a tool nor the agent (console and database only). \<open>risk_tol\<close>
  is the risk tolerance of the session.
\<close>

definition route_handlers ::
  "'w tools \<Rightarrow> string \<Rightarrow> string \<Rightarrow> route \<Rightarrow> ('w session handler list \<times> string) option" where
  "route_handlers T risk_tol user_in r =
     (case r of
        Price ticker \<Rightarrow> Some ([on_session (stock_query T ticker)], user_in)
      | Analyze alloc \<Rightarrow> Some ([on_session (portfolio_analysis T alloc risk_tol)], user_in)
      | Fraud js \<Rightarrow>
          Some ([\<lambda>s. case on_session (fraud_check T js) s of
                       (Returned out_raw, s') \<Rightarrow> (Returned (snd (guard_and_disclaim out_raw False)), s')
                     | (Raised, s') \<Rightarrow> (Raised, s')], user_in)
      | Sentiment text_for_sent \<Rightarrow> Some ([on_session (sentiment T text_for_sent)], user_in)
      | News topic \<Rightarrow>
          Some ([on_session (news_headlines T
                   (strip_chars [CHR 0x27] (strip_chars [CHR 0x22] (strip topic))))],
                ''Give me recent headlines for: '' @ topic)
      | Alloc_guess alloc \<Rightarrow> Some ([on_session (portfolio_analysis T alloc risk_tol)], user_in)
      | Price_regex ticker \<Rightarrow> Some ([on_session (stock_query T ticker)], user_in)
      | Freeform \<Rightarrow> Some ([], user_in)
      | _ \<Rightarrow> None)"

text \<open>
  One turn: the text printed, the session afterwards and the calls made by
  \<^verbatim>\<open>run_with_failsafe\<close>; \<open>None\<close> for a turn that calls neither a tool nor the agent.
\<close>

definition cli_turn ::
  "bool \<Rightarrow> 'w tools \<Rightarrow> 'w executor \<Rightarrow> string \<Rightarrow> string \<Rightarrow> 'w session
     \<Rightarrow> (string \<times> 'w session \<times> call list) option" where
  "cli_turn strict T exec risk_tol line s =
     (case route_handlers T risk_tol (strip line) (route_of line) of
        None \<Rightarrow> None
      | Some (handlers, question) \<Rightarrow>
          Some (run_with_failsafe strict question handlers (agent_chat exec) s))"

text \<open>
  Sample tools and a sample executor that write down, in the outside world, every call
  they receive.
\<close>

definition noting :: "string \<Rightarrow> string \<Rightarrow> string list handler" where
  "noting name arg w = (Returned (name @ '' ran''), w @ [name @ ''('' @ arg @ '')''])"

definition noting_tools :: "string list tools" where
  "noting_tools = \<lparr>stock_query = noting ''tool_stock_query'',
     portfolio_analysis = (\<lambda>alloc tol. noting ''tool_portfolio_analysis'' alloc),
     fraud_check = noting ''tool_fraud_check'',
     sentiment = noting ''tool_sentiment'',
     news_headlines = noting ''tool_news_headlines''\<rparr>"

definition noting_exec :: "string list executor" where
  "noting_exec input history w = (Returned (Exec_output ''the model answers''), w @ [''llm('' @ input @ '')''])"

definition fresh :: "string list session" where
  "fresh = \<lparr>mem = [], outside = [], llm_calls = []\<rparr>"

section \<open>Properties of the regular-expression matcher\<close>

lemma lit_ends_eq:
  "lit_ends w (p, s) = (if prefix w s then [(prev_of p w, drop (length w) s)] else [])"
proof (induction w arbitrary: p s)
  case Nil
  then show ?case by (simp add: prev_of_def)
next
  case (Cons x xs)
  show ?case
  proof (cases s)
    case Nil
    then show ?thesis by simp
  next
    case (Cons c cs)
    then show ?thesis using Cons.IH [of "Some c" cs] by (auto simp: prev_of_def)
  qed
qed

text \<open>A search succeeds exactly when the pattern matches at some split of the text.\<close>

lemma search_from_iff:
  "search_from r (p, s) \<longleftrightarrow>
     (\<exists>pre post. s = pre @ post \<and> ends r (prev_of p pre, post) \<noteq> [])"
proof (induction s arbitrary: p)
  case Nil
  then show ?case by (simp add: prev_of_def)
next
  case (Cons c cs)
  have "(\<exists>pre post. c # cs = pre @ post \<and> ends r (prev_of p pre, post) \<noteq> []) \<longleftrightarrow>
        ends r (p, c # cs) \<noteq> [] \<or>
        (\<exists>pre post. cs = pre @ post \<and> ends r (prev_of (Some c) pre, post) \<noteq> [])"
    (is "?L \<longleftrightarrow> ?A \<or> ?B")
  proof
    assume ?L
    then obtain pre post where h: "c # cs = pre @ post" "ends r (prev_of p pre, post) \<noteq> []"
      by blast
    show "?A \<or> ?B"
    proof (cases pre)
      case Nil
      with h show ?thesis by (simp add: prev_of_def)
    next
      case (Cons a pre')
      with h have "cs = pre' @ post" "a = c" by auto
      moreover have "prev_of p pre = prev_of (Some c) pre'"
        using Cons \<open>a = c\<close> by (simp add: prev_of_def)
      ultimately show ?thesis using h by auto
    qed
  next
    assume "?A \<or> ?B"
    then show ?L
    proof
      assume ?A
      then have "c # cs = [] @ (c # cs) \<and> ends r (prev_of p [], c # cs) \<noteq> []"
        by (simp add: prev_of_def)
      then show ?L by blast
    next
      assume ?B
      then obtain pre post where h: "cs = pre @ post" "ends r (prev_of (Some c) pre, post) \<noteq> []"
        by blast
      have "prev_of p (c # pre) = prev_of (Some c) pre" by (simp add: prev_of_def)
      with h have "c # cs = (c # pre) @ post \<and> ends r (prev_of p (c # pre), post) \<noteq> []"
        by simp
      then show ?L by blast
    qed
  qed
  with Cons.IH [of "Some c"] show ?case by simp
qed

text \<open>Searching for a literal is the substring test.\<close>

lemma re_search_Lit: "re_search (Lit w) text \<longleftrightarrow> sublist w text"
  unfolding re_search_def search_from_iff sublist_def
  by (auto simp: lit_ends_eq prefix_def)

lemma ends_word:
  assumes "w \<noteq> []" "is_word (hd w)" "is_word (last w)"
  shows "ends (Seq WordB (Seq (Lit w) WordB)) (p, s) \<noteq> [] \<longleftrightarrow>
         (p = None \<or> (\<exists>c. p = Some c \<and> \<not> is_word c)) \<and> prefix w s \<and>
         (drop (length w) s = [] \<or> \<not> is_word (hd (drop (length w) s)))"
  using assms
  by (cases s; cases w; cases p; cases "drop (length w) s")
     (auto simp: lit_ends_eq prev_of_def)

text \<open>A word between two \<^verbatim>\<open>\b\<close> is found exactly where it stands alone.\<close>

lemma re_search_word:
  assumes "w \<noteq> []" "is_word (hd w)" "is_word (last w)"
  shows "re_search (Seq WordB (Seq (Lit w) WordB)) text \<longleftrightarrow> standalone w text"
proof
  assume "re_search (Seq WordB (Seq (Lit w) WordB)) text"
  then obtain pre post where h: "text = pre @ post"
      "ends (Seq WordB (Seq (Lit w) WordB)) (prev_of None pre, post) \<noteq> []"
    unfolding re_search_def search_from_iff by blast
  from h(2) have b: "prev_of None pre = None \<or> (\<exists>c. prev_of None pre = Some c \<and> \<not> is_word c)"
    and p: "prefix w post"
    and e: "drop (length w) post = [] \<or> \<not> is_word (hd (drop (length w) post))"
    using ends_word [OF assms] by blast+
  from p obtain rest where r: "post = w @ rest" by (auto simp: prefix_def)
  have "pre = [] \<or> \<not> is_word (last pre)"
    using b by (auto simp: prev_of_def split: if_splits)
  moreover have "rest = [] \<or> \<not> is_word (hd rest)" using e r by simp
  ultimately show "standalone w text" unfolding standalone_def using h(1) r by blast
next
  assume "standalone w text"
  then obtain pre post where h: "text = pre @ w @ post" "pre = [] \<or> \<not> is_word (last pre)"
      "post = [] \<or> \<not> is_word (hd post)"
    unfolding standalone_def by blast
  have "ends (Seq WordB (Seq (Lit w) WordB)) (prev_of None pre, w @ post) \<noteq> []"
    using h(2,3) unfolding ends_word [OF assms] by (auto simp: prev_of_def)
  then show "re_search (Seq WordB (Seq (Lit w) WordB)) text"
    unfolding re_search_def search_from_iff using h(1) by blast
qed

lemma nan_is_a_word: "''nan'' \<noteq> [] \<and> is_word (hd ''nan'') \<and> is_word (last ''nan'')"
  by code_simp

lemma re_search_nan:
  "re_search (Seq WordB (Seq (Lit ''nan'') WordB)) text \<longleftrightarrow> standalone ''nan'' text"
  using nan_is_a_word by (intro re_search_word) auto

section \<open>The quality gate\<close>

text \<open>What the source's denylist comes to, pattern by pattern.\<close>

lemma bad_patterns_hit:
  "list_ex (\<lambda>pat. re_search pat text) BAD_PATTERNS \<longleftrightarrow>
     standalone ''nan'' text \<or> sublist ''could not parse'' text \<or>
     re_search (Seq (Lit ''invalid'') (Seq (Plus (Cls (\<lambda>c. c = CHR '' ''))) (Lit ''json''))) text \<or>
     sublist ''unavailable'' text \<or> sublist ''no price data found'' text \<or>
     re_search (Seq (Lit ''yfinance'') (Seq (Star Dot) (Lit ''failed''))) text \<or>
     sublist ''request timed out'' text \<or> sublist ''error:'' text \<or> sublist ''exception'' text"
  unfolding BAD_PATTERNS_def by (simp add: re_search_Lit re_search_nan)

text \<open>
  C3 (amended). Under strict mode: the empty output is broken; an output whose lowercased
  text holds the marker "expected annual return:" and not "nan" is never broken; any other
  output is broken when its lowercased text holds "nan" as a word of its own (between word
  boundaries, as \<^verbatim>\<open>\bnan\b\<close> asks) or holds one of "could not parse", "unavailable",
  "no price data found", "request timed out", "exception", "error:".
\<close>

theorem looks_broken_gate:
  "(output = [] \<longrightarrow> looks_broken True output)
   \<and> (sublist ''expected annual return:'' (lower output) \<and> \<not> sublist ''nan'' (lower output)
        \<longrightarrow> \<not> looks_broken True output)
   \<and> (\<not> (sublist ''expected annual return:'' (lower output) \<and> \<not> sublist ''nan'' (lower output))
       \<and> (standalone ''nan'' (lower output) \<or> sublist ''could not parse'' (lower output)
          \<or> sublist ''unavailable'' (lower output) \<or> sublist ''no price data found'' (lower output)
          \<or> sublist ''request timed out'' (lower output) \<or> sublist ''exception'' (lower output)
          \<or> sublist ''error:'' (lower output))
        \<longrightarrow> looks_broken True output)"
proof -
  have empty: "lower [] = []" by (simp add: lower_def)
  have no_marker: "\<not> sublist ''expected annual return:'' []" by simp
  show ?thesis
    unfolding looks_broken_def Let_def bad_patterns_hit
    using empty no_marker by auto
qed

theorem looks_broken_gate_witness:
  "looks_broken True [] \<and> looks_broken True ''Price is NaN today''
   \<and> looks_broken True ''Tool error: request failed''
   \<and> \<not> looks_broken True ''Expected annual return: 5.00% (no exception)''"
proof -
  have a: "standalone ''nan'' (lower ''Price is NaN today'')"
  proof -
    have "lower ''Price is NaN today'' = ''price is '' @ ''nan'' @ '' today''" by code_simp
    moreover have "\<not> is_word (last ''price is '')" "\<not> is_word (hd '' today'')" by code_simp+
    ultimately show ?thesis unfolding standalone_def by blast
  qed
  have b: "\<not> sublist ''expected annual return:'' (lower ''Price is NaN today'')" by code_simp
  have c: "sublist ''error:'' (lower ''Tool error: request failed'')" by code_simp
  have d: "\<not> sublist ''expected annual return:'' (lower ''Tool error: request failed'')"
    by code_simp
  have e: "sublist ''expected annual return:'' (lower ''Expected annual return: 5.00% (no exception)'')
      \<and> \<not> sublist ''nan'' (lower ''Expected annual return: 5.00% (no exception)'')"
    by code_simp
  show ?thesis
    using looks_broken_gate [of "[]"] looks_broken_gate [of "''Price is NaN today''"]
      looks_broken_gate [of "''Tool error: request failed''"]
      looks_broken_gate [of "''Expected annual return: 5.00% (no exception)''"] a b c d e
    by blast
qed

text \<open>
  C3 as the specification words it fails: "finance" is not empty, holds the denylisted
  substring "nan" and no marker, and passes the gate.
\<close>

theorem looks_broken_substring_counterexample:
  "list_ex (\<lambda>p. sublist p (lower ''finance'')) spec_denylist
   \<and> \<not> sublist ''expected annual return:'' (lower ''finance'')
   \<and> \<not> looks_broken True ''finance''"
  by code_simp

section \<open>The failsafe executor\<close>

lemma try_handlers_all_fail:
  "\<forall>i<length hs. failed strict (outcomes hs w ! i) \<Longrightarrow>
   try_handlers strict hs i0 w calls =
     (None, world_after hs w, calls @ map Handler_call [i0..<i0 + length hs])"
proof (induction hs arbitrary: i0 w calls)
  case Nil
  then show ?case by simp
next
  case (Cons h hs)
  obtain r w' where hw: "h w = (r, w')" by (cases "h w")
  from Cons.prems have f0: "failed strict r" using hw by (auto dest: spec [of _ 0])
  have rest: "\<forall>i<length hs. failed strict (outcomes hs w' ! i)"
  proof (intro allI impI)
    fix i assume "i < length hs"
    then have "failed strict (outcomes (h # hs) w ! Suc i)" using Cons.prems by auto
    then show "failed strict (outcomes hs w' ! i)" using hw by simp
  qed
  have step: "try_handlers strict (h # hs) i0 w calls =
      try_handlers strict hs (Suc i0) w' (calls @ [Handler_call i0])"
    using f0 hw by (cases r) auto
  show ?case
    unfolding step Cons.IH [OF rest] using hw
    by (simp add: upt_conv_Cons del: upt_Suc)
qed

lemma try_handlers_first_ok:
  "k < length hs \<Longrightarrow> outcomes hs w ! k = Returned s \<Longrightarrow> \<not> looks_broken strict s \<Longrightarrow>
   \<forall>i<k. failed strict (outcomes hs w ! i) \<Longrightarrow>
   try_handlers strict hs i0 w calls =
     (Some s, world_after (take (Suc k) hs) w, calls @ map Handler_call [i0..<i0 + Suc k])"
proof (induction hs arbitrary: k i0 w calls)
  case Nil
  then show ?case by simp
next
  case (Cons h hs)
  obtain r w' where hw: "h w = (r, w')" by (cases "h w")
  show ?case
  proof (cases k)
    case 0
    with Cons.prems hw have "r = Returned s" by simp
    with Cons.prems hw 0 show ?thesis by simp
  next
    case (Suc j)
    from Cons.prems Suc have f0: "failed strict r" using hw by (auto dest: spec [of _ 0])
    have j: "j < length hs" using Cons.prems Suc by simp
    have oj: "outcomes hs w' ! j = Returned s" using Cons.prems Suc hw by simp
    have rest: "\<forall>i<j. failed strict (outcomes hs w' ! i)"
    proof (intro allI impI)
      fix i assume "i < j"
      then have "failed strict (outcomes (h # hs) w ! Suc i)" using Cons.prems Suc by auto
      then show "failed strict (outcomes hs w' ! i)" using hw by simp
    qed
    have step: "try_handlers strict (h # hs) i0 w calls =
        try_handlers strict hs (Suc i0) w' (calls @ [Handler_call i0])"
      using f0 hw by (cases r) auto
    show ?thesis
      unfolding step Cons.IH [OF j oj Cons.prems(3) rest] using hw Suc
      by (simp add: upt_conv_Cons del: upt_Suc)
  qed
qed

text \<open>
  C1. The handlers are called in order, each at most once. If every handler fails (raises,
  or returns a text that the quality gate refuses), the chat capability is called once,
  after all of them, with the original question, and the text \<^verbatim>\<open>run_and_comply\<close> makes of
  its answer is returned (a fixed apology when it raises). Otherwise the text of the first
  handler that passes is returned as it is, and neither a later handler nor the chat
  capability is called.
\<close>

theorem run_with_failsafe_order:
  "((\<forall>i<length hs. failed strict (outcomes hs w ! i)) \<longrightarrow>
      run_with_failsafe strict question hs chat w =
        (fst (run_and_comply chat question (world_after hs w)),
         snd (run_and_comply chat question (world_after hs w)),
         map Handler_call [0..<length hs] @ [Chat_call question]))
   \<and> (\<forall>k s. k < length hs \<and> outcomes hs w ! k = Returned s \<and> \<not> looks_broken strict s \<and>
         (\<forall>i<k. failed strict (outcomes hs w ! i)) \<longrightarrow>
      run_with_failsafe strict question hs chat w =
        (s, world_after (take (Suc k) hs) w, map Handler_call [0..<Suc k]))"
proof (intro conjI impI allI)
  assume "\<forall>i<length hs. failed strict (outcomes hs w ! i)"
  from try_handlers_all_fail [OF this, of 0 "[]"]
  show "run_with_failsafe strict question hs chat w =
        (fst (run_and_comply chat question (world_after hs w)),
         snd (run_and_comply chat question (world_after hs w)),
         map Handler_call [0..<length hs] @ [Chat_call question])"
    by (simp add: run_with_failsafe_def split: prod.splits)
next
  fix k s
  assume h: "k < length hs \<and> outcomes hs w ! k = Returned s \<and> \<not> looks_broken strict s \<and>
         (\<forall>i<k. failed strict (outcomes hs w ! i))"
  then have "try_handlers strict hs 0 w [] =
     (Some s, world_after (take (Suc k) hs) w, [] @ map Handler_call [0..<0 + Suc k])"
    by (intro try_handlers_first_ok) auto
  then show "run_with_failsafe strict question hs chat w =
        (s, world_after (take (Suc k) hs) w, map Handler_call [0..<Suc k])"
    by (simp add: run_with_failsafe_def)
qed

theorem run_with_failsafe_order_witness:
  "run_with_failsafe True ''price XYZ''
     [\<lambda>w::nat. (Raised, Suc w), \<lambda>w. (Returned ''Tool error: no data'', Suc w)]
     (\<lambda>q w. (Returned (Dict_output (''chat: '' @ q)), w + 10)) 0
   = (''chat: price XYZ'', 12, [Handler_call 0, Handler_call 1, Chat_call ''price XYZ''])
   \<and> run_with_failsafe True ''price XYZ''
     [\<lambda>w::nat. (Raised, Suc w), \<lambda>w. (Returned ''XYZ is at 10.00'', Suc w),
      \<lambda>w. (Returned ''never asked'', Suc w)]
     (\<lambda>q w. (Returned (Dict_output (''chat: '' @ q)), w + 10)) 0
   = (''XYZ is at 10.00'', 2, [Handler_call 0, Handler_call 1])"
proof -
  let ?chat = "\<lambda>q (w::nat). (Returned (Dict_output (''chat: '' @ q)), w + 10)"
  let ?h0 = "\<lambda>w::nat. (Raised :: string outcome, Suc w)"
  let ?h1 = "\<lambda>w::nat. (Returned ''Tool error: no data'', Suc w)"
  let ?h2 = "\<lambda>w::nat. (Returned ''XYZ is at 10.00'', Suc w)"
  let ?h3 = "\<lambda>w::nat. (Returned ''never asked'', Suc w)"
  have bad: "looks_broken True ''Tool error: no data''" by code_simp
  have good: "\<not> looks_broken True ''XYZ is at 10.00''" by code_simp
  have all: "\<forall>i<length [?h0, ?h1]. failed True (outcomes [?h0, ?h1] 0 ! i)"
    using bad by (auto simp: less_Suc_eq)
  have first: "1 < length [?h0, ?h2, ?h3] \<and> outcomes [?h0, ?h2, ?h3] 0 ! 1 = Returned ''XYZ is at 10.00''
      \<and> \<not> looks_broken True ''XYZ is at 10.00''
      \<and> (\<forall>i<1. failed True (outcomes [?h0, ?h2, ?h3] 0 ! i))"
    using good by simp
  have a: "run_with_failsafe True ''price XYZ'' [?h0, ?h1] ?chat 0 =
      (''chat: price XYZ'', 12, [Handler_call 0, Handler_call 1, Chat_call ''price XYZ''])"
    using run_with_failsafe_order [of "[?h0, ?h1]" True 0 "''price XYZ''" ?chat,
        THEN conjunct1, THEN mp, OF all]
    by (simp add: run_and_comply_def upt_rec)
  have b: "run_with_failsafe True ''price XYZ'' [?h0, ?h2, ?h3] ?chat 0 =
      (''XYZ is at 10.00'', 2, [Handler_call 0, Handler_call 1])"
    using run_with_failsafe_order [of "[?h0, ?h2, ?h3]" True 0 "''price XYZ''" ?chat,
        THEN conjunct2, THEN spec [of _ 1], THEN spec [of _ "''XYZ is at 10.00''"], THEN mp,
        OF first]
    by (simp add: upt_rec)
  from a b show ?thesis by simp
qed

section \<open>Compliance\<close>

text \<open>
  C10. Whatever two texts hold a banned phrase (in any mix of upper and lower case) and
  whatever the mode, \<^verbatim>\<open>guard_and_disclaim\<close> answers both with the same pair: not allowed,
  and the fixed refusal, in which nothing of the text appears.
\<close>

theorem refusal_is_fixed:
  "has_banned_phrase t1 \<and> has_banned_phrase t2 \<longrightarrow>
     guard_and_disclaim t1 b1 = (False, REFUSAL) \<and> guard_and_disclaim t2 b2 = (False, REFUSAL)
     \<and> guard_and_disclaim t1 b1 = guard_and_disclaim t2 b2"
  by (simp add: has_banned_phrase_def guard_and_disclaim_def list_ex_iff)

theorem refusal_is_fixed_witness:
  "has_banned_phrase ''Any tips on Insider Trading?'' \<and> has_banned_phrase ''a surefire bet''
   \<and> guard_and_disclaim ''Any tips on Insider Trading?'' True = guard_and_disclaim ''a surefire bet'' False
   \<and> guard_and_disclaim ''a surefire bet'' False = (False, REFUSAL)"
proof -
  have a: "has_banned_phrase ''Any tips on Insider Trading?''" by code_simp
  have b: "has_banned_phrase ''a surefire bet''" by code_simp
  show ?thesis
    using refusal_is_fixed [of "''Any tips on Insider Trading?''" "''a surefire bet''" True False] a b
    by simp
qed

section \<open>Risk fit\<close>

text \<open>
  C8. For a tolerance that is recognised after lowercasing and trimming, the label is "fit"
  exactly when the volatility is strictly below the threshold (0.10 for conservative or
  low, 0.20 for moderate or medium, 0.35 for aggressive or high) and "too volatile"
  otherwise, so also at the threshold itself; for any other tolerance it is "unknown".
\<close>

theorem risk_fit_label_thresholds:
  "(norm_tolerance t \<in> {''conservative'', ''low''} \<longrightarrow>
      risk_fit_label vol (Some t) = (if vol < 0.10 then ''fit'' else ''too volatile''))
   \<and> (norm_tolerance t \<in> {''moderate'', ''medium''} \<longrightarrow>
      risk_fit_label vol (Some t) = (if vol < 0.20 then ''fit'' else ''too volatile''))
   \<and> (norm_tolerance t \<in> {''aggressive'', ''high''} \<longrightarrow>
      risk_fit_label vol (Some t) = (if vol < 0.35 then ''fit'' else ''too volatile''))
   \<and> (norm_tolerance t \<notin> {''conservative'', ''low'', ''moderate'', ''medium'', ''aggressive'', ''high''} \<longrightarrow>
      risk_fit_label vol (Some t) = ''unknown'')"
  by (auto simp: risk_fit_label_def norm_tolerance_def Let_def)

theorem risk_fit_label_thresholds_witness:
  "risk_fit_label 0.10 (Some ''conservative'') = ''too volatile''
   \<and> risk_fit_label 0.0999 (Some ''conservative'') = ''fit''
   \<and> risk_fit_label 0.20 (Some '' Moderate '') = ''too volatile''
   \<and> risk_fit_label 0.349 (Some ''AGGRESSIVE'') = ''fit''
   \<and> risk_fit_label 0.05 (Some ''cautious'') = ''unknown''"
proof -
  have n: "norm_tolerance ''conservative'' = ''conservative''"
    "norm_tolerance '' Moderate '' = ''moderate''"
    "norm_tolerance ''AGGRESSIVE'' = ''aggressive''"
    "norm_tolerance ''cautious'' = ''cautious''"
    by code_simp+
  show ?thesis
    using risk_fit_label_thresholds [of "''conservative''" "0.10"]
      risk_fit_label_thresholds [of "''conservative''" "0.0999"]
      risk_fit_label_thresholds [of "'' Moderate ''" "0.20"]
      risk_fit_label_thresholds [of "''AGGRESSIVE''" "0.349"]
      risk_fit_label_thresholds [of "''cautious''" "0.05"]
    by (simp add: n)
qed

section \<open>The fraud screener\<close>

text \<open>\<^verbatim>\<open>zscore_flag\<close> without the square root, which makes it computable.\<close>

lemma abs_div_sqrt_gt:
  assumes "v > 0"
  shows "\<bar>d / sqrt v\<bar> > 3 \<longleftrightarrow> d ^ 2 > 9 * v"
proof -
  have s: "sqrt v > 0" using assms by simp
  have "\<bar>d / sqrt v\<bar> = \<bar>d\<bar> / sqrt v" using s by (simp add: abs_divide)
  then have "\<bar>d / sqrt v\<bar> > 3 \<longleftrightarrow> 3 * sqrt v < \<bar>d\<bar>"
    using s by (simp add: pos_less_divide_eq)
  also have "\<dots> \<longleftrightarrow> (3 * sqrt v) ^ 2 < \<bar>d\<bar> ^ 2"
  proof
    assume "3 * sqrt v < \<bar>d\<bar>"
    then show "(3 * sqrt v) ^ 2 < \<bar>d\<bar> ^ 2"
      using s by (intro power_strict_mono) auto
  next
    assume "(3 * sqrt v) ^ 2 < \<bar>d\<bar> ^ 2"
    then show "3 * sqrt v < \<bar>d\<bar>"
      by (rule power2_less_imp_less) simp
  qed
  also have "\<dots> \<longleftrightarrow> 9 * v < d ^ 2"
    using assms by (simp add: power_mult_distrib)
  finally show ?thesis .
qed

lemma variance_nonneg:
  "sum_list (map (\<lambda>x. (x - mu) ^ 2) (h :: real list)) / real (length h) \<ge> 0"
  by (intro divide_nonneg_nonneg sum_list_nonneg) auto

lemma zscore_flag_code [code]:
  "zscore_flag a history =
     (if history = [] \<or> length history < 5 then False
      else
        let mu = sum_list history / real (length history);
            v = sum_list (map (\<lambda>x. (x - mu) ^ 2) history) / real (length history)
        in if v = 0 then \<bar>a - mu\<bar> > 3 else (a - mu) ^ 2 > 9 * v)"
proof -
  define mu where "mu = sum_list history / real (length history)"
  define v where "v = sum_list (map (\<lambda>x. (x - mu) ^ 2) history) / real (length history)"
  have v0: "v \<ge> 0" unfolding v_def by (rule variance_nonneg)
  have "(\<bar>(a - mu) / (if sqrt v = 0 then 1 else sqrt v)\<bar> > 3) =
        (if v = 0 then \<bar>a - mu\<bar> > 3 else (a - mu) ^ 2 > 9 * v)"
    using v0 abs_div_sqrt_gt [of v "a - mu"] by (cases "v = 0") auto
  then show ?thesis
    unfolding zscore_flag_def Let_def mu_def [symmetric] v_def [symmetric] by simp
qed










text \<open>
  C6 (amended). The unknown-counterparty flag fires exactly when a set of known
  counterparties is supplied (it may be empty), the trimmed counterparty is not empty and
  is not in the set, compared as it is written. Through \<^verbatim>\<open>tool_fraud_check\<close> a missing
  set counts as the empty set, so there the flag fires for every counterparty that is not
  empty and not in the set.
\<close>

theorem unknown_counterparty_flag:
  "(''unknown-counterparty'' \<in> set (flags (snd (simple_fraud_check t known pol history_by_cp))) \<longleftrightarrow>
      (\<exists>K. known = Some K \<and> tx_cp t \<noteq> [] \<and> tx_cp t \<notin> K))
   \<and> (\<forall>r. tool_fraud_check (Some t) known pol = Inr r \<longrightarrow>
        (''unknown-counterparty'' \<in> set (flags (snd r)) \<longleftrightarrow>
           tx_cp t \<noteq> [] \<and> tx_cp t \<notin> (case known of None \<Rightarrow> {} | Some K \<Rightarrow> K)))"
proof -
  have main: "\<And>kn h. ''unknown-counterparty'' \<in> set (flags (snd (simple_fraud_check t kn pol h))) \<longleftrightarrow>
      (\<exists>K. kn = Some K \<and> tx_cp t \<noteq> [] \<and> tx_cp t \<notin> K)"
    by (auto simp: simple_fraud_check_def Let_def tx_cp_def split: option.splits)
  show ?thesis
    using main by (auto simp: tool_fraud_check_def)
qed

lemma tx_test_cp: "tx_cp tx_test = ''X''" by code_simp

theorem unknown_counterparty_flag_witness:
  "''unknown-counterparty'' \<in> set (flags (snd (simple_fraud_check tx_test (Some {''Y''}) None None)))
   \<and> ''unknown-counterparty'' \<notin> set (flags (snd (simple_fraud_check tx_test (Some {''X''}) None None)))
   \<and> ''unknown-counterparty'' \<notin> set (flags (snd (simple_fraud_check tx_test None None None)))"
  using unknown_counterparty_flag [of tx_test "Some {''Y''}" None None]
    unknown_counterparty_flag [of tx_test "Some {''X''}" None None]
    unknown_counterparty_flag [of tx_test None None None]
  by (simp add: tx_test_cp)

text \<open>
  C6 as the specification words it fails on the repository's own test input: with the
  empty set supplied, the flag fires for counterparty X.
\<close>

theorem unknown_counterparty_empty_set_counterexample:
  "''unknown-counterparty'' \<in> set (flags (snd (simple_fraud_check tx_test (Some {}) None None)))"
  by code_simp

section \<open>The price cache\<close>









section \<open>Price resolution\<close>

lemma glp_cache_hit:
  "cached_today m cf (map_symbol symbol) = Some p \<Longrightarrow>
   get_latest_price m cf symbol = ((Some p, ''cache:today''), cf, [])"
  by (simp add: get_latest_price_def cached_today_def Let_def)

lemma glp_alpha:
  "cached_today m cf (map_symbol symbol) = None \<Longrightarrow> has_key m \<Longrightarrow>
   alpha_vantage m (map_symbol symbol) = AV_price p \<Longrightarrow>
   get_latest_price m cf symbol =
     ((Some p, ''alpha_vantage''), write_back m cf (map_symbol symbol) p,
      [Alpha_Vantage (map_symbol symbol)])"
  by (auto simp: get_latest_price_def cached_today_def write_back_def Let_def has_key_def
      alpha_vantage_price_def)

lemma glp_yf:
  "cached_today m cf (map_symbol symbol) = None \<Longrightarrow> \<not> av_succeeds m (map_symbol symbol) \<Longrightarrow>
   get_latest_price m cf symbol =
     (case latest_price_yf m (map_symbol symbol) of
        ((Some p, src), reqs) \<Rightarrow>
          ((Some p, src), write_back m cf (map_symbol symbol) p, av_sent m (map_symbol symbol) @ reqs)
      | ((None, src), reqs) \<Rightarrow> ((None, src), cf, av_sent m (map_symbol symbol) @ reqs))"
  by (cases "alpha_vantage m (map_symbol symbol)"; cases "api_key m")
     (auto simp: get_latest_price_def cached_today_def write_back_def Let_def has_key_def
        av_succeeds_def av_sent_def alpha_vantage_price_def split: option.splits prod.splits)

text \<open>
  C2 (amended). \<^verbatim>\<open>get_latest_price\<close> always returns, and tries in this order, stopping
  at the first price: today's cache entry (tag "cache:today", nothing sent, nothing
  written); Alpha Vantage, asked only when a key is configured (tag "alpha_vantage", the
  price written back); the yfinance intraday history, then the daily history (tags
  "yfinance (intraday)" and "yfinance:last_close", the last close written back). When all
  fail the answer is no price with the tag "yfinance:unavailable" (both histories empty) or
  "yfinance:error" (yfinance raised), and the cache is left as it is.
\<close>

theorem get_latest_price_chain:
  "(cached_today m cf (map_symbol symbol) = Some p \<longrightarrow>
      get_latest_price m cf symbol = ((Some p, ''cache:today''), cf, []))
   \<and> (cached_today m cf (map_symbol symbol) = None \<and> has_key m
        \<and> alpha_vantage m (map_symbol symbol) = AV_price p \<longrightarrow>
      get_latest_price m cf symbol =
        ((Some p, ''alpha_vantage''), write_back m cf (map_symbol symbol) p,
         [Alpha_Vantage (map_symbol symbol)]))
   \<and> (cached_today m cf (map_symbol symbol) = None \<and> \<not> av_succeeds m (map_symbol symbol)
        \<and> yf_intraday m (map_symbol symbol) = Returned df \<and> df \<noteq> [] \<longrightarrow>
      get_latest_price m cf symbol =
        ((Some (last df), ''yfinance (intraday)''), write_back m cf (map_symbol symbol) (last df),
         av_sent m (map_symbol symbol) @ [YF_intraday (map_symbol symbol)]))
   \<and> (cached_today m cf (map_symbol symbol) = None \<and> \<not> av_succeeds m (map_symbol symbol)
        \<and> yf_intraday m (map_symbol symbol) = Returned []
        \<and> yf_daily m (map_symbol symbol) = Returned df \<and> df \<noteq> [] \<longrightarrow>
      get_latest_price m cf symbol =
        ((Some (last df), ''yfinance:last_close''), write_back m cf (map_symbol symbol) (last df),
         av_sent m (map_symbol symbol) @
           [YF_intraday (map_symbol symbol), YF_daily (map_symbol symbol)]))
   \<and> (cached_today m cf (map_symbol symbol) = None \<and> \<not> av_succeeds m (map_symbol symbol)
        \<and> yf_intraday m (map_symbol symbol) = Returned []
        \<and> yf_daily m (map_symbol symbol) = Returned [] \<longrightarrow>
      get_latest_price m cf symbol =
        ((None, ''yfinance:unavailable''), cf,
         av_sent m (map_symbol symbol) @
           [YF_intraday (map_symbol symbol), YF_daily (map_symbol symbol)]))
   \<and> (cached_today m cf (map_symbol symbol) = None \<and> \<not> av_succeeds m (map_symbol symbol)
        \<and> yf_intraday m (map_symbol symbol) = Raised \<longrightarrow>
      get_latest_price m cf symbol =
        ((None, ''yfinance:error''), cf,
         av_sent m (map_symbol symbol) @ [YF_intraday (map_symbol symbol)]))
   \<and> (cached_today m cf (map_symbol symbol) = None \<and> \<not> av_succeeds m (map_symbol symbol)
        \<and> yf_intraday m (map_symbol symbol) = Returned []
        \<and> yf_daily m (map_symbol symbol) = Raised \<longrightarrow>
      get_latest_price m cf symbol =
        ((None, ''yfinance:error''), cf,
         av_sent m (map_symbol symbol) @
           [YF_intraday (map_symbol symbol), YF_daily (map_symbol symbol)]))"
proof (intro conjI impI)
  assume "cached_today m cf (map_symbol symbol) = Some p"
  then show "get_latest_price m cf symbol = ((Some p, ''cache:today''), cf, [])"
    by (rule glp_cache_hit)
next
  assume "cached_today m cf (map_symbol symbol) = None \<and> has_key m
        \<and> alpha_vantage m (map_symbol symbol) = AV_price p"
  then show "get_latest_price m cf symbol =
        ((Some p, ''alpha_vantage''), write_back m cf (map_symbol symbol) p,
         [Alpha_Vantage (map_symbol symbol)])"
    by (intro glp_alpha) auto
qed (simp_all add: glp_yf latest_price_yf_def)

theorem get_latest_price_chain_witness:
  "get_latest_price dead_market (Some [row_old, row_new, row_other]) ''nvda''
     = ((Some 101, ''cache:today''), Some [row_old, row_new, row_other], [])
   \<and> get_latest_price (dead_market\<lparr>api_key := Some ''k'', alpha_vantage := (\<lambda>_. AV_price 5)\<rparr>) None ''bonds''
     = ((Some 5, ''alpha_vantage''),
        Some [\<lparr>row_symbol = ''BND'', row_date = ''2025-01-02'', row_price = Some 5, row_ts = Some 3000\<rparr>],
        [Alpha_Vantage ''BND''])
   \<and> get_latest_price (dead_market\<lparr>api_key := Some ''k'', yf_daily := (\<lambda>_. Returned [1, 2, 3])\<rparr>) None ''xyz''
     = ((Some 3, ''yfinance:last_close''),
        Some [\<lparr>row_symbol = ''XYZ'', row_date = ''2025-01-02'', row_price = Some 3, row_ts = Some 3000\<rparr>],
        [Alpha_Vantage ''XYZ'', YF_intraday ''XYZ'', YF_daily ''XYZ''])
   \<and> get_latest_price (dead_market\<lparr>yf_intraday := (\<lambda>_. Raised)\<rparr>) None ''xyz''
     = ((None, ''yfinance:error''), None, [YF_intraday ''XYZ''])"
proof -
  let ?m2 = "dead_market\<lparr>api_key := Some ''k'', alpha_vantage := (\<lambda>_. AV_price 5)\<rparr>"
  let ?m3 = "dead_market\<lparr>api_key := Some ''k'', yf_daily := (\<lambda>_. Returned [1, 2, 3])\<rparr>"
  let ?m4 = "dead_market\<lparr>yf_intraday := (\<lambda>_. Raised)\<rparr>"
  have s: "map_symbol ''nvda'' = ''NVDA''" "map_symbol ''bonds'' = ''BND''" "map_symbol ''xyz'' = ''XYZ''"
    "upper ''BND'' = ''BND''" "upper ''XYZ'' = ''XYZ''"
    by code_simp+
  have c1: "cached_today dead_market (Some [row_old, row_new, row_other]) ''NVDA'' = Some 101"
    by code_simp
  have c2: "cached_today ?m2 None ''BND'' = None" "cached_today ?m3 None ''XYZ'' = None"
    "cached_today ?m4 None ''XYZ'' = None"
    by (simp_all add: cached_today_def get_cached_price_def)
  have k: "has_key ?m2" "has_key ?m3" "\<not> has_key ?m4"
    by (simp_all add: has_key_def dead_market_def)
  have a: "get_latest_price dead_market (Some [row_old, row_new, row_other]) ''nvda''
     = ((Some 101, ''cache:today''), Some [row_old, row_new, row_other], [])"
    using get_latest_price_chain [where m = dead_market and cf = "Some [row_old, row_new, row_other]"
        and symbol = "''nvda''" and p = 101, THEN conjunct1, THEN mp] c1 s by simp
  have b: "get_latest_price ?m2 None ''bonds''
     = ((Some 5, ''alpha_vantage''),
        Some [\<lparr>row_symbol = ''BND'', row_date = ''2025-01-02'', row_price = Some 5, row_ts = Some 3000\<rparr>],
        [Alpha_Vantage ''BND''])"
    using get_latest_price_chain [where m = ?m2 and cf = None and symbol = "''bonds''" and p = 5,
        THEN conjunct2, THEN conjunct1, THEN mp] c2 k s
    by (simp add: write_back_def put_cached_price_def dead_market_def)
  have c: "get_latest_price ?m3 None ''xyz''
     = ((Some 3, ''yfinance:last_close''),
        Some [\<lparr>row_symbol = ''XYZ'', row_date = ''2025-01-02'', row_price = Some 3, row_ts = Some 3000\<rparr>],
        [Alpha_Vantage ''XYZ'', YF_intraday ''XYZ'', YF_daily ''XYZ''])"
    using get_latest_price_chain [where m = ?m3 and cf = None and symbol = "''xyz''" and df = "[1, 2, 3]",
        THEN conjunct2, THEN conjunct2, THEN conjunct2, THEN conjunct1, THEN mp] c2 k s
    by (simp add: write_back_def put_cached_price_def dead_market_def av_succeeds_def av_sent_def)
  have d: "get_latest_price ?m4 None ''xyz'' = ((None, ''yfinance:error''), None, [YF_intraday ''XYZ''])"
    using get_latest_price_chain [where m = ?m4 and cf = None and symbol = "''xyz''",
        THEN conjunct2, THEN conjunct2, THEN conjunct2, THEN conjunct2, THEN conjunct2,
        THEN conjunct1, THEN mp] c2 k s
    by (simp add: dead_market_def av_succeeds_def av_sent_def)
  from a b c d show ?thesis by blast
qed

text \<open>
  C2 as the specification words it fails on the tag: with no cache, no key and empty
  histories the answer is \<open>(None, "yfinance:unavailable")\<close>, not \<open>(None, "unavailable")\<close>.
\<close>

theorem get_latest_price_unavailable_counterexample:
  "cached_today dead_market None (map_symbol ''xyz'') = None
   \<and> \<not> has_key dead_market
   \<and> yf_intraday dead_market (map_symbol ''xyz'') = Returned []
   \<and> yf_daily dead_market (map_symbol ''xyz'') = Returned []
   \<and> fst (get_latest_price dead_market None ''xyz'') = (None, ''yfinance:unavailable'')
   \<and> fst (get_latest_price dead_market None ''xyz'') \<noteq> (None, ''unavailable'')"
proof -
  have a: "fst (get_latest_price dead_market None ''xyz'') = (None, ''yfinance:unavailable'')"
    by code_simp
  have b: "cached_today dead_market None (map_symbol ''xyz'') = None"
    by (simp add: cached_today_def get_cached_price_def)
  have c: "\<not> has_key dead_market" by (simp add: has_key_def dead_market_def)
  show ?thesis using a b c by (simp add: dead_market_def)
qed

section \<open>Allocations\<close>










text \<open>\<^verbatim>\<open>parse_percent_alloc\<close> by itself resolves no alias: "bonds" stays BONDS.\<close>

lemma parse_percent_alloc_keeps_bonds:
  "parse_percent_alloc ''50% NVDA, 30% TSLA, 20% bonds''
     = Inr [(''NVDA'', 0.5), (''TSLA'', 0.3), (''BONDS'', 0.2)]"
  by code_simp



section \<open>Compliance on the command line\<close>

text \<open>\<^verbatim>\<open>AgentWithMemory.invoke\<close> refuses a banned input before anything else: the executor
  is not invoked, memory and world stay as they are.\<close>

lemma agent_invoke_refuses:
  "has_banned_phrase user_msg \<Longrightarrow> agent_invoke exec user_msg s = (REFUSAL, s)"
  by (simp add: agent_invoke_def guard_and_disclaim_def has_banned_phrase_def list_ex_iff)

lemma try_handlers_calls_extend:
  "\<exists>rest. snd (snd (try_handlers strict hs i w calls)) = calls @ rest"
proof (induction hs arbitrary: i w calls)
  case Nil
  then show ?case by simp
next
  case (Cons g gs)
  obtain r w' where gw: "g w = (r, w')" by (cases "g w")
  obtain rest where "snd (snd (try_handlers strict gs (Suc i) w' (calls @ [Handler_call i])))
      = (calls @ [Handler_call i]) @ rest"
    using Cons [of "Suc i" w' "calls @ [Handler_call i]"] by blast
  then show ?case using gw by (cases r) auto
qed

lemma try_handlers_calls_first:
  "\<exists>rest. snd (snd (try_handlers strict (h # hs) i w calls)) = calls @ Handler_call i # rest"
proof -
  obtain r w' where hw: "h w = (r, w')" by (cases "h w")
  obtain rest where "snd (snd (try_handlers strict hs (Suc i) w' (calls @ [Handler_call i])))
      = (calls @ [Handler_call i]) @ rest"
    using try_handlers_calls_extend [of strict hs "Suc i" w' "calls @ [Handler_call i]"] by blast
  then show ?thesis using hw by (cases r) auto
qed

text \<open>With a handler to try, the first call of \<^verbatim>\<open>run_with_failsafe\<close> is that handler.\<close>

lemma run_with_failsafe_calls_first:
  "\<exists>rest. snd (snd (run_with_failsafe strict q (h # hs) chat w)) = Handler_call 0 # rest"
proof -
  obtain rest where r: "snd (snd (try_handlers strict (h # hs) 0 w [])) = [] @ Handler_call 0 # rest"
    using try_handlers_calls_first [of strict h hs 0 w "[]"] by blast
  obtain a b c where t: "try_handlers strict (h # hs) 0 w [] = (a, b, c)"
    by (cases "try_handlers strict (h # hs) 0 w []")
  with r have c: "c = Handler_call 0 # rest" by simp
  show ?thesis
    unfolding run_with_failsafe_def t using c
    by (cases a) (auto split: prod.splits)
qed

text \<open>
  A line that the loop routes to the sentiment tool runs that tool first, whatever the
  line says: no compliance check stands before the direct tool routes.
\<close>

lemma sentiment_route_runs_tool:
  assumes r: "route_of line = Sentiment txt"
  shows "\<exists>out s' rest. cli_turn strict T exec risk_tol line s = Some (out, s', Handler_call 0 # rest)"
proof -
  obtain out s' calls where x: "run_with_failsafe strict (strip line)
      [on_session (sentiment T txt)] (agent_chat exec) s = (out, s', calls)"
    by (cases "run_with_failsafe strict (strip line) [on_session (sentiment T txt)] (agent_chat exec) s")
  obtain rest where "calls = Handler_call 0 # rest"
    using run_with_failsafe_calls_first [of strict "strip line" "on_session (sentiment T txt)" "[]"
        "agent_chat exec" s] x by auto
  then show ?thesis using r x by (simp add: cli_turn_def route_handlers_def)
qed

text \<open>
  C7 at a failing input. The line "sentiment this stock is a surefire winner" holds the
  banned phrase "surefire". The main loop routes it to the sentiment tool and runs the tool:
  the text returned is the tool's, the tool has been called, and no refusal is given. The
  agent, had it been given the same line, refuses it and calls nothing.
\<close>

theorem cli_runs_tool_on_banned_input:
  "has_banned_phrase ''sentiment this stock is a surefire winner''
   \<and> route_of ''sentiment this stock is a surefire winner'' = Sentiment ''this stock is a surefire winner''
   \<and> cli_turn True noting_tools noting_exec ''moderate'' ''sentiment this stock is a surefire winner'' fresh
       = Some (''tool_sentiment ran'',
               \<lparr>mem = [], outside = [''tool_sentiment(this stock is a surefire winner)''],
                 llm_calls = []\<rparr>,
               [Handler_call 0])
   \<and> agent_invoke noting_exec ''sentiment this stock is a surefire winner'' fresh = (REFUSAL, fresh)"
proof -
  have b: "has_banned_phrase ''sentiment this stock is a surefire winner''" by code_simp
  have r: "route_of ''sentiment this stock is a surefire winner'' = Sentiment ''this stock is a surefire winner''"
    by code_simp
  have s: "strip ''sentiment this stock is a surefire winner'' = ''sentiment this stock is a surefire winner''"
    by code_simp
  have g: "\<not> looks_broken True ''tool_sentiment ran''" by code_simp
  have t: "cli_turn True noting_tools noting_exec ''moderate'' ''sentiment this stock is a surefire winner'' fresh
       = Some (''tool_sentiment ran'',
               \<lparr>mem = [], outside = [''tool_sentiment(this stock is a surefire winner)''],
                 llm_calls = []\<rparr>,
               [Handler_call 0])"
    using g by (simp add: cli_turn_def r s route_handlers_def run_with_failsafe_def on_session_def
        noting_tools_def noting_def fresh_def)
  show ?thesis using b r t agent_invoke_refuses [OF b] by simp
qed

end
